theory Spec2Isabelle
  imports Complex_Main
begin

section \<open>Diagnostics: \<open>LefError\<close> (lef.c)\<close>

text \<open>
  The message class passed as \<open>type\<close>.  The four values are macros of lef.h; every call
  site of lef.c and def.c passes one of them.
\<close>

datatype diag_type = LEF_ERROR | LEF_WARNING | DEF_ERROR | DEF_WARNING

text \<open>What \<open>LefError\<close> prints: an ordinary message with its line number, the one-time
  notice that further messages are suppressed, or the summary of the two totals.\<close>

datatype diag_output =
    Message char int string
  | Suppressed char
  | Summary char nat nat

text \<open>The two function-static counters of \<open>LefError\<close> and the text printed so far.\<close>

record lef_errors =
  fatal :: nat
  nonfatal :: nat
  printed :: "diag_output list"

text \<open>
  \<open>LefError(type, fmt, ...)\<close>.  \<open>Verbose\<close> and \<open>lefCurrentLine\<close> are globals and
  \<open>LEF_MAX_ERRORS\<close> is a macro of lef.h; they are parameters here.  \<open>fmt = None\<close> is the
  \<open>NULL\<close> format of the sentinel call.
\<close>

definition LefError ::
  "int \<Rightarrow> nat \<Rightarrow> int \<Rightarrow> diag_type \<Rightarrow> string option \<Rightarrow> lef_errors \<Rightarrow> lef_errors" where
  "LefError Verbose LEF_MAX_ERRORS lefCurrentLine type fmt st =
    (if Verbose = 0 then st
     else
       let lefordef = (if type = DEF_WARNING \<or> type = DEF_ERROR then CHR ''D'' else CHR ''L'');
           errors = fatal st + nonfatal st
       in (case fmt of
             None \<Rightarrow>
               (if errors > 0
                then st\<lparr>printed := printed st @ [Summary lefordef (fatal st) (nonfatal st)],
                        fatal := 0, nonfatal := 0\<rparr>
                else st)
           | Some text \<Rightarrow>
               (let st1 =
                  (if errors < LEF_MAX_ERRORS
                   then st\<lparr>printed := printed st @ [Message lefordef lefCurrentLine text]\<rparr>
                   else if errors = LEF_MAX_ERRORS
                   then st\<lparr>printed := printed st @ [Suppressed lefordef]\<rparr>
                   else st)
                in if type = LEF_ERROR \<or> type = DEF_ERROR
                   then st1\<lparr>fatal := fatal st1 + 1\<rparr>
                   else if type = LEF_WARNING \<or> type = DEF_WARNING
                   then st1\<lparr>nonfatal := nonfatal st1 + 1\<rparr>
                   else st1)))"

fun is_summary :: "diag_output \<Rightarrow> bool" where
  "is_summary (Summary c f n) = True"
| "is_summary _ = False"

section \<open>The layer registry: \<open>LefInfo\<close> and its queries (lef.c)\<close>

text \<open>
  Ways in which the C code can leave defined behaviour in the functions modelled below: a read
  through a \<open>NULL\<close> pointer, a read of memory that \<open>malloc\<close> returned and nothing has
  written yet, an access past the end of an array, and the conversion to \<open>int\<close> of a
  double that is not a number of that range.
\<close>

datatype crash = NullDeref | UninitRead | OutOfBounds | BadConversion

datatype lef_class =
  CLASS_ROUTE | CLASS_CUT | CLASS_VIA | CLASS_MASTER | CLASS_OVERLAP | CLASS_IGNORE

text \<open>\<open>struct dseg_\<close>: a rectangle on a layer.  The \<open>next\<close> pointer is the tail of a list.\<close>

record dseg =
  x1 :: real
  y1 :: real
  x2 :: real
  y2 :: real
  layer :: int

text \<open>\<open>lefSpacingRule\<close>: one (width, spacing) pair of a route layer's rule list.\<close>

record lefSpacingRule =
  rule_width :: real
  rule_spacing :: real

text \<open>The members of \<open>info.route\<close> and \<open>info.via\<close> that the functions below read or write.
  A \<open>NULL\<close> list pointer is the empty list.\<close>

record lefRoute =
  width :: real
  spacing :: "lefSpacingRule list"

record lefVia =
  area :: dseg
  cell :: "string option"
  lr :: "dseg list"
  generated :: bool

text \<open>
  \<open>lefLayer\<close>.  In C \<open>info\<close> is a union of \<open>route\<close> and \<open>via\<close>; here both members are
  fields.  Every read below is of the member that the record's \<open>lefClass\<close> selects, as in
  the source.  Doubles are modelled as reals.  \<open>LefInfo\<close> is the list of records from its
  head; a pointer into it is a position.
\<close>

record lefLayer =
  lefName :: string
  type :: int
  obsType :: int
  lefClass :: lef_class
  route :: lefRoute
  via :: lefVia

fun LefFindLayerByNum :: "lefLayer list \<Rightarrow> int \<Rightarrow> lefLayer option" where
  "LefFindLayerByNum [] n = None"
| "LefFindLayerByNum (lefl # rest) n =
     (if type lefl = n then Some lefl else LefFindLayerByNum rest n)"


definition LefGetRouteWidth :: "lefLayer list \<Rightarrow> real \<Rightarrow> real \<Rightarrow> int \<Rightarrow> real" where
  "LefGetRouteWidth LefInfo PitchX PitchY n =
     (case LefFindLayerByNum LefInfo n of
        Some lefl \<Rightarrow>
          (if lefClass lefl = CLASS_ROUTE then width (route lefl)
           else min PitchX PitchY / 2)
      | None \<Rightarrow> min PitchX PitchY / 2)"

definition LefGetRouteSpacing :: "lefLayer list \<Rightarrow> real \<Rightarrow> real \<Rightarrow> int \<Rightarrow> real" where
  "LefGetRouteSpacing LefInfo PitchX PitchY n =
     (case LefFindLayerByNum LefInfo n of
        Some lefl \<Rightarrow>
          (if lefClass lefl = CLASS_ROUTE
           then (case spacing (route lefl) of [] \<Rightarrow> 0 | r # rs \<Rightarrow> rule_spacing r)
           else min PitchX PitchY / 2)
      | None \<Rightarrow> min PitchX PitchY / 2)"



text \<open>\<open>LefNewVia\<close>: the record is \<open>calloc\<close>ed, so every member not set explicitly is zero.\<close>

definition LefNewVia :: "string \<Rightarrow> lefLayer" where
  "LefNewVia name =
     \<lparr>lefName = name, type = -1, obsType = -1, lefClass = CLASS_VIA,
      route = \<lparr>width = 0, spacing = []\<rparr>,
      via = \<lparr>area = \<lparr>x1 = 0, y1 = 0, x2 = 0, y2 = 0, layer = -1\<rparr>,
             cell = None, lr = [], generated = False\<rparr>\<rparr>"


section \<open>Tokens and keyword lookup (lef.c)\<close>

text \<open>
  The readers see their input as the sequence of tokens that \<open>LefNextToken(f, TRUE)\<close> hands
  out: whitespace-separated words with comment lines removed.  The model takes that sequence
  as a list; at its end \<open>LefNextToken\<close> returns \<open>NULL\<close>, here \<open>None\<close>.
\<close>

fun LefNextToken :: "string list \<Rightarrow> string option \<times> string list" where
  "LefNextToken [] = (None, [])"
| "LefNextToken (t # ts) = (Some t, ts)"

text \<open>\<open>*token\<close>: the first character of a C string, \<open>NUL\<close> for the empty string.\<close>

fun first_char :: "string \<Rightarrow> char" where
  "first_char [] = CHR 0x00"
| "first_char (c # cs) = c"

text \<open>The character classes of ctype.h in the C locale.\<close>

definition isupper :: "char \<Rightarrow> bool" where
  "isupper c = (65 \<le> (of_char c :: nat) \<and> (of_char c :: nat) \<le> 90)"

definition islower :: "char \<Rightarrow> bool" where
  "islower c = (97 \<le> (of_char c :: nat) \<and> (of_char c :: nat) \<le> 122)"

definition tolower :: "char \<Rightarrow> char" where
  "tolower c = (if isupper c then char_of ((of_char c :: nat) + 32) else c)"

definition toupper :: "char \<Rightarrow> char" where
  "toupper c = (if islower c then char_of ((of_char c :: nat) - 32) else c)"

text \<open>The inner \<open>while\<close> of \<open>Lookup\<close>: advance over the string and the table entry while
  the characters agree up to case and the entry has not reached a blank.  The result is what
  is left of both.\<close>

fun Lookup_scan :: "string \<Rightarrow> string \<Rightarrow> string \<times> string" where
  "Lookup_scan (s # strc) (t # tabc) =
     (if t \<noteq> CHR '' '' \<and>
         (t = s \<or> (isupper t \<and> islower s \<and> tolower t = s)
                \<or> (islower t \<and> isupper s \<and> toupper t = s))
      then Lookup_scan strc tabc
      else (s # strc, t # tabc))"
| "Lookup_scan strc tabc = (strc, tabc)"

text \<open>The \<open>for\<close> loop of \<open>Lookup\<close> from position \<open>pos\<close> with the current \<open>match\<close>.  The
  boolean tells whether the loop left through \<open>break\<close> (an exact match) rather than by
  reaching the end of the table.\<close>

fun Lookup_loop :: "string \<Rightarrow> string list \<Rightarrow> int \<Rightarrow> int \<Rightarrow> int \<times> bool" where
  "Lookup_loop str [] pos match = (match, False)"
| "Lookup_loop str (entry # table) pos match =
     (case Lookup_scan str entry of
        ([], tabc) \<Rightarrow>
          (if tabc = [] \<or> first_char tabc = CHR '' '' then (pos, True)
           else if match = -2 then Lookup_loop str table (pos + 1) pos
           else Lookup_loop str table (pos + 1) (-1))
      | (s # strc, tabc) \<Rightarrow> Lookup_loop str table (pos + 1) match)"

text \<open>\<open>Lookup\<close> on a table that ends with its \<open>NULL\<close> entry.\<close>

definition Lookup :: "string \<Rightarrow> string list \<Rightarrow> int" where
  "Lookup str table = fst (Lookup_loop str table 0 (-2))"

text \<open>\<open>Lookup\<close> on a table declared without the closing \<open>NULL\<close>: unless an exact match
  ends the search, the loop reads past the array.\<close>

definition Lookup_unterminated :: "string \<Rightarrow> string list \<Rightarrow> crash + int" where
  "Lookup_unterminated str table =
     (case Lookup_loop str table 0 (-2) of
        (m, True) \<Rightarrow> Inr m
      | (m, False) \<Rightarrow> Inl OutOfBounds)"

section \<open>Placed instances: location and placement transform (def.c)\<close>

text \<open>The bits of \<open>gate->orient\<close>; \<open>MNONE\<close> is the empty set.\<close>

datatype orient_flag = MX | MY | R90

text \<open>\<open>struct node_\<close>, with the members that the net reader writes.\<close>

record node =
  nodenum :: int
  node_netnum :: int
  node_numnodes :: int
  node_netname :: "string option"

text \<open>
  \<open>struct gate_\<close>, used for macros and for placed instances.  \<open>gatetype\<close> points to the
  macro, named here by its \<open>gatename\<close>; the per-pin arrays are lists of length \<open>nodes\<close>.
\<close>

record gate =
  gatename :: "string option"
  gatetype :: "string option"
  nodes :: int
  node_names :: "string option list"
  gate_netnum :: "int list"
  direction :: "nat list"
  pin_area :: "real list"
  noderec :: "node option list"
  taps :: "dseg list list"
  obs :: "dseg list"
  gate_width :: real
  gate_height :: real
  placedX :: real
  placedY :: real
  orient :: "orient_flag set"

text \<open>The orientation keywords of \<open>DefReadLocation\<close>, in the order of \<open>enum def_orient\<close>.
  The C array has no closing \<open>NULL\<close>.\<close>

definition orientations :: "string list" where
  "orientations = [''N'', ''S'', ''E'', ''W'', ''FN'', ''FS'', ''FE'', ''FW'']"

text \<open>The \<open>switch\<close> of \<open>DefReadLocation\<close>: the flags \<open>(mxflag, myflag, r90flag)\<close> of a
  keyword index.\<close>

definition orient_flags :: "int \<Rightarrow> bool \<times> bool \<times> bool" where
  "orient_flags keyword =
     (if keyword = 0 then (False, False, False)
      else if keyword = 1 then (True, True, False)
      else if keyword = 4 then (True, False, False)
      else if keyword = 5 then (False, True, False)
      else if keyword = 2 then (False, False, True)
      else if keyword = 3 then (True, True, True)
      else if keyword = 6 then (True, False, True)
      else if keyword = 7 then (False, True, True)
      else (False, False, False))"

text \<open>
  \<open>DefReadLocation(gate, f, oscale)\<close> on the tokens \<open>( X Y ) orient\<close>.  \<open>sscanf_f\<close> stands
  for \<open>sscanf(token, "%f", ...)\<close> of the C library.  The result is the return value, the
  gate (\<open>None\<close> is a \<open>NULL\<close> gate) and the tokens left.  The diagnostics are left out.
\<close>

definition DefReadLocation ::
  "(string \<Rightarrow> real option) \<Rightarrow> gate option \<Rightarrow> string list \<Rightarrow> real
     \<Rightarrow> crash + (int \<times> gate option \<times> string list)" where
  "DefReadLocation sscanf_f g f oscale =
     (case LefNextToken f of
        (None, f1) \<Rightarrow> Inl NullDeref
      | (Some t1, f1) \<Rightarrow>
     if first_char t1 \<noteq> CHR ''('' then Inr (-1, g, f1) else
     (case LefNextToken f1 of
        (None, f2) \<Rightarrow> Inl NullDeref
      | (Some t2, f2) \<Rightarrow>
     (case sscanf_f t2 of
        None \<Rightarrow> Inr (-1, g, f2)
      | Some x \<Rightarrow>
     (case LefNextToken f2 of
        (None, f3) \<Rightarrow> Inl NullDeref
      | (Some t3, f3) \<Rightarrow>
     (case sscanf_f t3 of
        None \<Rightarrow> Inr (-1, g, f3)
      | Some y \<Rightarrow>
     (case LefNextToken f3 of
        (None, f4) \<Rightarrow> Inl NullDeref
      | (Some t4, f4) \<Rightarrow>
     if first_char t4 \<noteq> CHR '')'' then Inr (-1, g, f4) else
     (case LefNextToken f4 of
        (None, f5) \<Rightarrow> Inl NullDeref
      | (Some t5, f5) \<Rightarrow>
     (case Lookup_unterminated t5 orientations of
        Inl e \<Rightarrow> Inl e
      | Inr keyword \<Rightarrow>
     if keyword < 0 then Inr (-1, g, f5) else
     (case orient_flags keyword of
        (mxflag, myflag, r90flag) \<Rightarrow>
          Inr (0,
               map_option (\<lambda>gt. gt\<lparr>placedX := x / oscale, placedY := y / oscale,
                      orient := (if mxflag then {MX} else {}) \<union> (if myflag then {MY} else {})
                                \<union> (if r90flag then {R90} else {})\<rparr>) g,
               f5))))))))))"

text \<open>
  The body of the loops of \<open>DefReadComponents\<close> that move a copied tap or obstruction
  rectangle \<open>drect\<close> of the macro \<open>gateginfo\<close> to the placed instance \<open>g\<close>.  The
  assignments are those of the source, in its order.
\<close>

definition place_rect :: "gate \<Rightarrow> gate \<Rightarrow> dseg \<Rightarrow> dseg" where
  "place_rect gateginfo g drect =
     (let d0 = drect\<lparr>x1 := x1 drect - placedX gateginfo, x2 := x2 drect - placedX gateginfo,
                     y1 := y1 drect - placedY gateginfo, y2 := y2 drect - placedY gateginfo\<rparr>;
          d1 = (if R90 \<in> orient g
                then (let tmp = y1 d0;
                          a = d0\<lparr>y1 := - x1 d0\<rparr>;
                          b = a\<lparr>y1 := y1 a + gate_width gateginfo\<rparr>;
                          c = b\<lparr>x1 := tmp\<rparr>;
                          tmp2 = y2 c;
                          d = c\<lparr>y2 := - x2 c\<rparr>;
                          e = d\<lparr>y2 := y2 d + gate_width gateginfo\<rparr>
                      in e\<lparr>x2 := tmp2\<rparr>)
                else d0);
          d2 = (if MX \<in> orient g
                then (let tmp = x1 d1;
                          a = d1\<lparr>x1 := - x2 d1\<rparr>;
                          b = a\<lparr>x1 := x1 a + (placedX g + gate_width gateginfo)\<rparr>;
                          c = b\<lparr>x2 := - tmp\<rparr>
                      in c\<lparr>x2 := x2 c + (placedX g + gate_width gateginfo)\<rparr>)
                else d1\<lparr>x1 := x1 d1 + placedX g, x2 := x2 d1 + placedX g\<rparr>)
      in (if MY \<in> orient g
          then (let tmp = y1 d2;
                    a = d2\<lparr>y1 := - y2 d2\<rparr>;
                    b = a\<lparr>y1 := y1 a + (placedY g + gate_height gateginfo)\<rparr>;
                    c = b\<lparr>y2 := - tmp\<rparr>
                in c\<lparr>y2 := y2 c + (placedY g + gate_height gateginfo)\<rparr>)
          else d2\<lparr>y1 := y1 d2 + placedY g, y2 := y2 d2 + placedY g\<rparr>))"

text \<open>Copying the macro's rectangles below the layer limit: each copy is put at the head of
  the instance's list, so the order is reversed; then every copy is placed.\<close>

definition copy_rects :: "int \<Rightarrow> dseg list \<Rightarrow> dseg list" where
  "copy_rects Num_layers rects = rev (filter (\<lambda>d. layer d < Num_layers) rects)"

definition place_rects :: "int \<Rightarrow> gate \<Rightarrow> gate \<Rightarrow> dseg list \<Rightarrow> dseg list" where
  "place_rects Num_layers gateginfo g rects =
     map (place_rect gateginfo g) (copy_rects Num_layers rects)"

text \<open>
  The placement transform in the words of the specification: the rectangle, taken relative to
  the macro's origin, is rotated by 90 degrees about the macro's width if the rotate flag is
  set, then mirrored in X about the macro's width if the mirror-X flag is set, then mirrored
  in Y about the macro's height if the mirror-Y flag is set, and finally translated to the
  placement position.
\<close>

definition to_origin :: "real \<Rightarrow> real \<Rightarrow> dseg \<Rightarrow> dseg" where
  "to_origin ox oy d = d\<lparr>x1 := x1 d - ox, y1 := y1 d - oy, x2 := x2 d - ox, y2 := y2 d - oy\<rparr>"

definition rotate90 :: "real \<Rightarrow> dseg \<Rightarrow> dseg" where
  "rotate90 w d = d\<lparr>x1 := y1 d, y1 := w - x1 d, x2 := y2 d, y2 := w - x2 d\<rparr>"

definition mirror_x :: "real \<Rightarrow> dseg \<Rightarrow> dseg" where
  "mirror_x w d = d\<lparr>x1 := w - x2 d, x2 := w - x1 d\<rparr>"

definition mirror_y :: "real \<Rightarrow> dseg \<Rightarrow> dseg" where
  "mirror_y h d = d\<lparr>y1 := h - y2 d, y2 := h - y1 d\<rparr>"

definition translate :: "real \<Rightarrow> real \<Rightarrow> dseg \<Rightarrow> dseg" where
  "translate px py d = d\<lparr>x1 := x1 d + px, y1 := y1 d + py, x2 := x2 d + px, y2 := y2 d + py\<rparr>"

definition spec_place_rect :: "gate \<Rightarrow> gate \<Rightarrow> dseg \<Rightarrow> dseg" where
  "spec_place_rect gateginfo g d =
     translate (placedX g) (placedY g)
       ((if MY \<in> orient g then mirror_y (gate_height gateginfo) else id)
         ((if MX \<in> orient g then mirror_x (gate_width gateginfo) else id)
           ((if R90 \<in> orient g then rotate90 (gate_width gateginfo) else id)
             (to_origin (placedX gateginfo) (placedY gateginfo) d))))"

text \<open>A macro of the given size with its origin at zero, used in examples.\<close>

definition macro_of_size :: "string \<Rightarrow> real \<Rightarrow> real \<Rightarrow> gate" where
  "macro_of_size name w h =
     \<lparr>gatename = Some name, gatetype = None, nodes = 0, node_names = [], gate_netnum = [],
      direction = [], pin_area = [], noderec = [], taps = [], obs = [],
      gate_width = w, gate_height = h, placedX = 0, placedY = 0, orient = {}\<rparr>"


section \<open>Reading layers and rectangles (lef.c)\<close>

text \<open>Sequencing of steps that may leave defined behaviour.\<close>

fun then_do :: "crash + 'a \<Rightarrow> ('a \<Rightarrow> crash + 'b) \<Rightarrow> crash + 'b" where
  "then_do (Inl e) k = Inl e"
| "then_do (Inr v) k = k v"

text \<open>A token that the code dereferences without testing it for \<open>NULL\<close>.\<close>

definition need_token :: "string list \<Rightarrow> crash + (string \<times> string list)" where
  "need_token f =
     (case LefNextToken f of
        (None, f') \<Rightarrow> Inl NullDeref
      | (Some t, f') \<Rightarrow> Inr (t, f'))"

fun LefEndStatement :: "string list \<Rightarrow> string list" where
  "LefEndStatement [] = []"
| "LefEndStatement (t # ts) = (if first_char t = CHR '';'' then ts else LefEndStatement ts)"

text \<open>\<open>LefFindLayer\<close>: the position of the first record of that name.\<close>

fun LefFindLayer :: "lefLayer list \<Rightarrow> string \<Rightarrow> nat option" where
  "LefFindLayer [] token = None"
| "LefFindLayer (lefl # rest) token =
     (if lefName lefl = token then Some 0 else map_option Suc (LefFindLayer rest token))"

definition LefFindLayerNum :: "lefLayer list \<Rightarrow> string option \<Rightarrow> int" where
  "LefFindLayerNum LefInfo token =
     (case token of
        None \<Rightarrow> -1
      | Some t \<Rightarrow> (case LefFindLayer LefInfo t of Some i \<Rightarrow> type (LefInfo ! i) | None \<Rightarrow> -1))"




section \<open>Units, die area and tracks (\<open>DefRead\<close>, def.c)\<close>

text \<open>\<open>struct tracks_\<close>.\<close>

record tracks =
  trk_start :: real
  ntracks :: int
  trk_pitch :: real

text \<open>
  The part of the state of \<open>DefRead\<close> that the UNITS, DIEAREA and TRACKS statements use:
  the locals \<open>oscale\<close>, \<open>start\<close>, \<open>step\<close>, \<open>channels\<close>, \<open>curlayer\<close>, \<open>corient\<close>,
  \<open>err_fatal\<close> and the saved die area, and the globals \<open>Xlowerbound\<close> to \<open>Yupperbound\<close>,
  \<open>PitchX\<close>, \<open>PitchY\<close>, \<open>Vert\<close>, \<open>Tracks\<close> and \<open>LefInfo\<close>.  \<open>Tracks = None\<close> is the
  \<open>NULL\<close> array.
\<close>

record def_read =
  oscale :: real
  start :: real
  step :: real
  channels :: int
  curlayer :: int
  corient :: char
  err_fatal :: int
  dXlowerbound :: real
  dYlowerbound :: real
  dXupperbound :: real
  dYupperbound :: real
  Xlowerbound :: real
  Xupperbound :: real
  Ylowerbound :: real
  Yupperbound :: real
  PitchX :: real
  PitchY :: real
  Vert :: "int \<Rightarrow> int"
  Tracks :: "(int \<Rightarrow> tracks option) option"
  LefInfo :: "lefLayer list"






text \<open>A route layer record and the state of \<open>DefRead\<close> before the first statement, used in
  examples: scale 1, all bounds and pitches zero, no tracks.\<close>

definition route_layer :: "string \<Rightarrow> int \<Rightarrow> real \<Rightarrow> lefLayer" where
  "route_layer name n w =
     (LefNewVia name)\<lparr>type := n, lefClass := CLASS_ROUTE, route := \<lparr>width = w, spacing = []\<rparr>\<rparr>"

definition def_read_init :: "lefLayer list \<Rightarrow> def_read" where
  "def_read_init li =
     \<lparr>oscale = 1, start = 0, step = 0, channels = 0, curlayer = -1, corient = CHR ''.'',
      err_fatal = 0, dXlowerbound = 0, dYlowerbound = 0, dXupperbound = 0, dYupperbound = 0,
      Xlowerbound = 0, Xupperbound = 0, Ylowerbound = 0, Yupperbound = 0,
      PitchX = 0, PitchY = 0, Vert = (\<lambda>l. 0), Tracks = None, LefInfo = li\<rparr>"


section \<open>The PINS section (\<open>DefReadPins\<close>, def.c)\<close>














section \<open>Via selection: \<open>LefAssignLayerVias\<close> (lef.c)\<close>

text \<open>
  The four tables of via names indexed by base layer, \<open>ViaXX\<close>, \<open>ViaXY\<close>, \<open>ViaYX\<close> and
  \<open>ViaYY\<close> (and the local \<open>newVia..\<close> tables of the same shape).  An entry is \<open>NULL\<close>
  (\<open>None\<close>) or a name.
\<close>

record via_tables =
  ViaXX :: "int \<Rightarrow> string option"
  ViaXY :: "int \<Rightarrow> string option"
  ViaYX :: "int \<Rightarrow> string option"
  ViaYY :: "int \<Rightarrow> string option"

definition no_vias :: via_tables where
  "no_vias = \<lparr>ViaXX = (\<lambda>b. None), ViaXY = (\<lambda>b. None), ViaYX = (\<lambda>b. None), ViaYY = (\<lambda>b. None)\<rparr>"

text \<open>
  The first loop: which base layers have a generated via.  A generated via with a rectangle
  on a negative layer loses its \<open>generated\<close> flag.  The test of \<open>lr->next\<close> is made even
  when \<open>lr\<close> is \<open>NULL\<close>.  \<open>MAX_LAYERS\<close> is a macro of the router's headers.
\<close>

fun mark_generate ::
  "int \<Rightarrow> lefLayer list \<Rightarrow> (int \<Rightarrow> bool) \<Rightarrow> crash + (lefLayer list \<times> (int \<Rightarrow> bool))" where
  "mark_generate MAX_LAYERS [] hasGenerate = Inr ([], hasGenerate)"
| "mark_generate MAX_LAYERS (lefl # rest) hasGenerate =
     (if lefClass lefl = CLASS_VIA \<and> generated (via lefl)
      then (case lr (via lefl) of
              [] \<Rightarrow> Inl NullDeref
            | r1 # rs \<Rightarrow>
                if layer r1 < 0
                then then_do (mark_generate MAX_LAYERS rest hasGenerate) (\<lambda>(li, hg).
                       Inr (lefl\<lparr>via := (via lefl)\<lparr>generated := False\<rparr>\<rparr> # li, hg))
                else
                  let b0 = layer (area (via lefl));
                      b1 = (if b0 < 0 \<or> layer r1 < b0 then layer r1 else b0)
                  in (case rs of
                        [] \<Rightarrow>
                          then_do (mark_generate MAX_LAYERS rest
                                     (if b1 \<ge> 0 \<and> b1 < MAX_LAYERS
                                      then hasGenerate(b1 := True) else hasGenerate))
                            (\<lambda>(li, hg). Inr (lefl # li, hg))
                      | r2 # rs' \<Rightarrow>
                          if layer r2 < 0
                          then then_do (mark_generate MAX_LAYERS rest hasGenerate) (\<lambda>(li, hg).
                                 Inr (lefl\<lparr>via := (via lefl)\<lparr>generated := False\<rparr>\<rparr> # li, hg))
                          else
                            let b2 = (if b1 < 0 \<or> layer r2 < b1 then layer r2 else b1)
                            in then_do (mark_generate MAX_LAYERS rest
                                          (if b2 \<ge> 0 \<and> b2 < MAX_LAYERS
                                           then hasGenerate(b2 := True) else hasGenerate))
                                 (\<lambda>(li, hg). Inr (lefl # li, hg))))
      else then_do (mark_generate MAX_LAYERS rest hasGenerate) (\<lambda>(li, hg). Inr (lefl # li, hg)))"

text \<open>The second loop: the least and the greatest number of a route layer, both -1 when
  there is none.\<close>

definition route_range :: "lefLayer list \<Rightarrow> int \<times> int" where
  "route_range li =
     fold (\<lambda>lefl (minroute, maxroute).
             if lefClass lefl = CLASS_ROUTE
             then (if minroute = -1 then (type lefl, type lefl)
                   else (if type lefl < minroute then type lefl else minroute,
                         if type lefl > maxroute then type lefl else maxroute))
             else (minroute, maxroute)) li (-1, -1)"

text \<open>X extent less Y extent of a rectangle.\<close>

definition xydiff :: "dseg \<Rightarrow> real" where
  "xydiff r = (x2 r - x1 r) - (y2 r - y1 r)"

text \<open>
  Base and top layer of a via and the elongation of its rectangles there, as each of the three
  passes computes them.  \<open>xybdiff\<close> and \<open>xytdiff\<close> are locals of the function: where the
  code does not assign them they keep the value of the previous via (at first, whatever the
  stack holds), so they go in and come out.
\<close>

definition via_layers ::
  "int \<Rightarrow> int \<Rightarrow> int \<Rightarrow> lefLayer \<Rightarrow> real \<times> real \<Rightarrow> int \<times> int \<times> real \<times> real" where
  "via_layers MAX_LAYERS minroute maxroute lefl d =
     (let a = area (via lefl);
          (b0, xyb0, xyt0) =
             (if layer a \<ge> minroute \<and> layer a \<le> maxroute
              then (layer a, xydiff a, xydiff a)
              else (MAX_LAYERS, fst d, snd d));
          (b1, xyb1) =
             fold (\<lambda>grect (b, xyb).
                     if layer grect \<ge> minroute \<and> layer grect \<le> maxroute \<and> layer grect < b
                     then (layer grect, xydiff grect) else (b, xyb))
                  (lr (via lefl)) (b0, xyb0);
          (t1, xyt1) =
             fold (\<lambda>grect (t, xyt).
                     if layer grect \<ge> minroute \<and> layer grect \<le> maxroute \<and> layer grect > t
                     then (layer grect, xydiff grect) else (t, xyt))
                  (lr (via lefl)) (b1, xyt0)
      in (b1, t1, xyb1, xyt1))"

text \<open>Whether a via may be assigned: with a list of allowed vias only a via named in it;
  without one, no fixed via on a base layer that has a generated one.\<close>

definition via_allowed :: "string list \<Rightarrow> (int \<Rightarrow> bool) \<Rightarrow> lefLayer \<Rightarrow> int \<Rightarrow> bool" where
  "via_allowed AllowedVias hasGenerate lefl baselayer =
     (if AllowedVias \<noteq> [] then lefName lefl \<in> set AllowedVias
      else \<not> (hasGenerate baselayer \<and> \<not> generated (via lefl)))"

text \<open>What each pass stores for an admitted via.  The first pass overwrites, the other two
  fill entries that are still \<open>NULL\<close>.  \<open>EPS\<close> is a macro of the router's headers.\<close>

definition fill :: "(int \<Rightarrow> string option) \<Rightarrow> int \<Rightarrow> string \<Rightarrow> (int \<Rightarrow> string option)" where
  "fill tab b name = (if tab b = None then tab(b \<mapsto> name) else tab)"

definition assign_pass1 :: "real \<Rightarrow> string \<Rightarrow> int \<Rightarrow> real \<Rightarrow> real \<Rightarrow> via_tables \<Rightarrow> via_tables" where
  "assign_pass1 EPS name b xybdiff xytdiff new =
     (if xytdiff > EPS \<and> xybdiff < - EPS then new\<lparr>ViaYX := (ViaYX new)(b \<mapsto> name)\<rparr>
      else if xytdiff < - EPS \<and> xybdiff > EPS then new\<lparr>ViaXY := (ViaXY new)(b \<mapsto> name)\<rparr>
      else if xytdiff > EPS \<and> xybdiff > EPS then new\<lparr>ViaXX := (ViaXX new)(b \<mapsto> name)\<rparr>
      else if xytdiff < - EPS \<and> xybdiff < - EPS then new\<lparr>ViaYY := (ViaYY new)(b \<mapsto> name)\<rparr>
      else new)"

definition assign_pass2 :: "real \<Rightarrow> string \<Rightarrow> int \<Rightarrow> real \<Rightarrow> real \<Rightarrow> via_tables \<Rightarrow> via_tables" where
  "assign_pass2 EPS name b xybdiff xytdiff new =
     (if xytdiff < EPS \<and> xytdiff > - EPS
      then (let n1 = (if xybdiff > EPS
                      then new\<lparr>ViaXX := fill (ViaXX new) b name,
                               ViaXY := fill (ViaXY new) b name\<rparr>
                      else new)
            in if xybdiff < - EPS
               then n1\<lparr>ViaYX := fill (ViaYX n1) b name, ViaYY := fill (ViaYY n1) b name\<rparr>
               else n1)
      else if xybdiff < EPS \<and> xybdiff > - EPS
      then (let n1 = (if xytdiff > EPS
                      then new\<lparr>ViaXX := fill (ViaXX new) b name,
                               ViaYX := fill (ViaYX new) b name\<rparr>
                      else new)
            in if xytdiff < - EPS
               then n1\<lparr>ViaXY := fill (ViaXY n1) b name, ViaYY := fill (ViaYY n1) b name\<rparr>
               else n1)
      else new)"

definition assign_pass3 :: "real \<Rightarrow> string \<Rightarrow> int \<Rightarrow> real \<Rightarrow> real \<Rightarrow> via_tables \<Rightarrow> via_tables" where
  "assign_pass3 EPS name b xybdiff xytdiff new =
     (if (xytdiff < EPS \<and> xytdiff > - EPS) \<and> (xybdiff < EPS \<and> xybdiff > - EPS)
      then new\<lparr>ViaXX := fill (ViaXX new) b name, ViaXY := fill (ViaXY new) b name,
               ViaYX := fill (ViaYX new) b name, ViaYY := fill (ViaYY new) b name\<rparr>
      else new)"

text \<open>One pass over the registry with the given assignment.\<close>

fun via_pass ::
  "(string \<Rightarrow> int \<Rightarrow> real \<Rightarrow> real \<Rightarrow> via_tables \<Rightarrow> via_tables) \<Rightarrow> int \<Rightarrow> int \<Rightarrow> int
     \<Rightarrow> string list \<Rightarrow> (int \<Rightarrow> bool) \<Rightarrow> lefLayer list \<Rightarrow> real \<times> real \<Rightarrow> via_tables
     \<Rightarrow> (real \<times> real) \<times> via_tables" where
  "via_pass assign MAX_LAYERS minroute maxroute AllowedVias hasGenerate [] d new = (d, new)"
| "via_pass assign MAX_LAYERS minroute maxroute AllowedVias hasGenerate (lefl # rest) d new =
     (if lefClass lefl = CLASS_VIA \<and> lr (via lefl) \<noteq> []
      then (case via_layers MAX_LAYERS minroute maxroute lefl d of
              (baselayer, toplayer, xybdiff, xytdiff) \<Rightarrow>
                via_pass assign MAX_LAYERS minroute maxroute AllowedVias hasGenerate rest
                  (xybdiff, xytdiff)
                  (if baselayer < MAX_LAYERS \<and> toplayer < MAX_LAYERS \<and> baselayer \<ge> 0
                      \<and> toplayer \<ge> 0 \<and> via_allowed AllowedVias hasGenerate lefl baselayer
                   then assign (lefName lefl) baselayer xybdiff xytdiff new
                   else new))
      else via_pass assign MAX_LAYERS minroute maxroute AllowedVias hasGenerate rest d new)"

text \<open>The three passes, from the first loop on.  \<open>d\<close> is what the two elongation locals hold
  at the start.  The result is the registry and the \<open>newVia..\<close> tables.\<close>

definition via_passes ::
  "real \<Rightarrow> int \<Rightarrow> string list \<Rightarrow> lefLayer list \<Rightarrow> real \<times> real
     \<Rightarrow> crash + (lefLayer list \<times> via_tables)" where
  "via_passes EPS MAX_LAYERS AllowedVias li d =
     then_do (mark_generate MAX_LAYERS li (\<lambda>b. False)) (\<lambda>(li1, hasGenerate).
       case route_range li1 of (minroute, maxroute) \<Rightarrow>
       case via_pass (assign_pass1 EPS) MAX_LAYERS minroute maxroute AllowedVias hasGenerate
              li1 d no_vias of (d1, new1) \<Rightarrow>
       case via_pass (assign_pass2 EPS) MAX_LAYERS minroute maxroute AllowedVias hasGenerate
              li1 d1 new1 of (d2, new2) \<Rightarrow>
       case via_pass (assign_pass3 EPS) MAX_LAYERS minroute maxroute AllowedVias hasGenerate
              li1 d2 new2 of (d3, new3) \<Rightarrow>
       Inr (li1, new3))"

text \<open>The copy back for one base layer: nothing happens when all four new entries are
  \<open>NULL\<close>; otherwise the four global entries are cleared and take the new entries
  (\<open>backfill_copy\<close>), and then, one after the other, each one that is still \<open>NULL\<close>
  takes the first new entry that is not, in the order of the source.\<close>

definition first_some :: "string option \<Rightarrow> string option \<Rightarrow> string option \<Rightarrow> string option" where
  "first_some a b c = (if a \<noteq> None then a else if b \<noteq> None then b else c)"

definition backfill_copy :: "via_tables \<Rightarrow> int \<Rightarrow> via_tables \<Rightarrow> via_tables" where
  "backfill_copy new b cur =
     cur\<lparr>ViaXX := (ViaXX cur)(b := ViaXX new b), ViaXY := (ViaXY cur)(b := ViaXY new b),
         ViaYX := (ViaYX cur)(b := ViaYX new b), ViaYY := (ViaYY cur)(b := ViaYY new b)\<rparr>"

definition backfill_XX :: "via_tables \<Rightarrow> int \<Rightarrow> via_tables \<Rightarrow> via_tables" where
  "backfill_XX new b cur =
     (if ViaXX cur b = None
      then cur\<lparr>ViaXX := (ViaXX cur)(b := first_some (ViaXY new b) (ViaYX new b) (ViaYY new b))\<rparr>
      else cur)"

definition backfill_XY :: "via_tables \<Rightarrow> int \<Rightarrow> via_tables \<Rightarrow> via_tables" where
  "backfill_XY new b cur =
     (if ViaXY cur b = None
      then cur\<lparr>ViaXY := (ViaXY cur)(b := first_some (ViaXX new b) (ViaYY new b) (ViaYX new b))\<rparr>
      else cur)"

definition backfill_YX :: "via_tables \<Rightarrow> int \<Rightarrow> via_tables \<Rightarrow> via_tables" where
  "backfill_YX new b cur =
     (if ViaYX cur b = None
      then cur\<lparr>ViaYX := (ViaYX cur)(b := first_some (ViaYY new b) (ViaXX new b) (ViaXY new b))\<rparr>
      else cur)"

definition backfill_YY :: "via_tables \<Rightarrow> int \<Rightarrow> via_tables \<Rightarrow> via_tables" where
  "backfill_YY new b cur =
     (if ViaYY cur b = None
      then cur\<lparr>ViaYY := (ViaYY cur)(b := first_some (ViaYX new b) (ViaXY new b) (ViaXX new b))\<rparr>
      else cur)"

definition backfill_layer :: "via_tables \<Rightarrow> int \<Rightarrow> via_tables \<Rightarrow> via_tables" where
  "backfill_layer new b cur =
     (if ViaXX new b = None \<and> ViaXY new b = None \<and> ViaYX new b = None \<and> ViaYY new b = None
      then cur
      else backfill_YY new b (backfill_YX new b (backfill_XY new b (backfill_XX new b
             (backfill_copy new b cur)))))"

definition via_backfill :: "int \<Rightarrow> via_tables \<Rightarrow> via_tables \<Rightarrow> via_tables" where
  "via_backfill MAX_LAYERS new cur = fold (backfill_layer new) [0..MAX_LAYERS - 1] cur"

text \<open>\<open>LefAssignLayerVias\<close>: the passes, then the copy back into the global tables.\<close>

definition LefAssignLayerVias ::
  "real \<Rightarrow> int \<Rightarrow> string list \<Rightarrow> lefLayer list \<Rightarrow> real \<times> real \<Rightarrow> via_tables
     \<Rightarrow> crash + (lefLayer list \<times> via_tables)" where
  "LefAssignLayerVias EPS MAX_LAYERS AllowedVias li d cur =
     then_do (via_passes EPS MAX_LAYERS AllowedVias li d) (\<lambda>(li1, new).
       Inr (li1, via_backfill MAX_LAYERS new cur))"


text \<open>A via was recorded for base layer \<open>b\<close> during the passes: one of the four new
  entries of \<open>b\<close> is not \<open>NULL\<close>.\<close>

definition recorded :: "via_tables \<Rightarrow> int \<Rightarrow> bool" where
  "recorded new b \<longleftrightarrow>
     ViaXX new b \<noteq> None \<or> ViaXY new b \<noteq> None \<or> ViaYX new b \<noteq> None \<or> ViaYY new b \<noteq> None"


text \<open>A via with its first rectangle on layer \<open>n\<close> and one more rectangle, used in
  examples.\<close>

definition via_on :: "string \<Rightarrow> dseg \<Rightarrow> dseg \<Rightarrow> lefLayer" where
  "via_on name a r = (LefNewVia name)\<lparr>via := \<lparr>area = a, cell = None, lr = [r], generated = False\<rparr>\<rparr>"


section \<open>Redefinition of a registered name (\<open>LefRedefined\<close>, \<open>LefRead\<close>, lef.c)\<close>









section \<open>Nets and routes (def.c)\<close>

text \<open>\<open>struct seg_\<close>, \<open>struct route_\<close> and \<open>struct net_\<close> with the members used below.  The
  flag bytes are sets of the named bits.  \<open>netnodes\<close>, \<open>routes\<close> and \<open>segments\<close> are the
  linked lists from their heads.\<close>

datatype seg_type = ST_WIRE | ST_VIA

record seg =
  segtype :: seg_type
  seg_x1 :: int
  seg_y1 :: int
  seg_x2 :: int
  seg_y2 :: int
  seg_layer :: int

datatype route_flag = RT_CHECK

record route =
  route_netnum :: int
  segments :: "seg list"
  rflags :: "route_flag set"

datatype net_flag = NET_IGNORED

record net =
  netnum :: int
  netname :: string
  numnodes :: int
  flags :: "net_flag set"
  netnodes :: "node list"
  routes :: "route list"

text \<open>Constants of the router's headers and globals that stay fixed while a DEF file is
  read.\<close>

record def_config =
  cfg_EPS :: real
  cfg_Num_layers :: int
  cfg_VDD_NET :: int
  cfg_GND_NET :: int
  cfg_MIN_NET_NUMBER :: int
  cfg_vddnet :: "string option"
  cfg_gndnet :: "string option"

text \<open>
  The locals of \<open>DefAddRoutes\<close> together with the net and the global list \<open>UserObs\<close>.
  \<open>routednet\<close> points to a route of the net; a route is named by the length that the
  route list had when the route was pushed, which no later push changes.
\<close>

record add_routes =
  the_net :: net
  UserObs :: "dseg list"
  routednet :: "nat option"
  refp_x1 :: int
  refp_y1 :: int
  valid :: bool
  rt_x :: real
  rt_y :: real
  rt_lx :: real
  rt_ly :: real
  rt_w :: real
  routeLayer :: int
  paintLayer :: int

text \<open>Position in the list of the route with the given name.\<close>

definition route_pos :: "route list \<Rightarrow> nat \<Rightarrow> nat" where
  "route_pos rts r = length rts - 1 - r"

text \<open>A new route record is pushed on the net and becomes \<open>routednet\<close>.\<close>

definition push_route :: "add_routes \<Rightarrow> add_routes" where
  "push_route ar =
     ar\<lparr>the_net := (the_net ar)\<lparr>routes :=
            \<lparr>route_netnum = netnum (the_net ar), segments = [], rflags = {}\<rparr>
              # routes (the_net ar)\<rparr>,
        routednet := Some (length (routes (the_net ar)))\<rparr>"

text \<open>A segment is put at the head of the segments of \<open>routednet\<close>, which is created first
  if it is \<open>NULL\<close>.\<close>

definition push_seg :: "seg \<Rightarrow> add_routes \<Rightarrow> add_routes" where
  "push_seg newRoute ar =
     (let ar1 = (if routednet ar = None then push_route ar else ar);
          rts = routes (the_net ar1);
          i = route_pos rts (the (routednet ar1))
      in ar1\<lparr>the_net := (the_net ar1)\<lparr>routes :=
                  rts[i := (rts ! i)\<lparr>segments := newRoute # segments (rts ! i)\<rparr>]\<rparr>\<rparr>)"

text \<open>\<open>routednet->flags |= RT_CHECK\<close>, guarded by \<open>if (routednet)\<close>.\<close>

definition flag_check :: "add_routes \<Rightarrow> add_routes" where
  "flag_check ar =
     (case routednet ar of
        None \<Rightarrow> ar
      | Some r \<Rightarrow>
          (let rts = routes (the_net ar); i = route_pos rts r
           in ar\<lparr>the_net := (the_net ar)\<lparr>routes :=
                     rts[i := (rts ! i)\<lparr>rflags := insert RT_CHECK (rflags (rts ! i))\<rparr>]\<rparr>\<rparr>))"

text \<open>The cast \<open>(int)\<close> of a double truncates towards zero; \<open>ABSDIFF\<close> is the absolute
  difference.\<close>

definition trunc_int :: "real \<Rightarrow> int" where
  "trunc_int r = (if r \<ge> 0 then \<lfloor>r\<rfloor> else \<lceil>r\<rceil>)"

definition ABSDIFF :: "'a::{ord,minus} \<Rightarrow> 'a \<Rightarrow> 'a" where
  "ABSDIFF a b = (if a > b then a - b else b - a)"

text \<open>The start of a route (the first round of the loop and every \<open>NEW\<close>): the layer name and,
  on a special net, the width.  A regular net gets a new route record.\<close>

definition route_NEW ::
  "(string \<Rightarrow> real option) \<Rightarrow> def_config \<Rightarrow> def_read \<Rightarrow> real \<Rightarrow> bool \<Rightarrow> add_routes
     \<Rightarrow> string list \<Rightarrow> crash + (add_routes \<times> string list)" where
  "route_NEW sscanf_lg cfg st scale special ar f =
     (case LefNextToken f of
        (token, f1) \<Rightarrow>
          let ar1 = ar\<lparr>valid := False, routeLayer := LefFindLayerNum (LefInfo st) token\<rparr>
          in if routeLayer ar1 < 0 then Inr (ar1, f1)
             else if routeLayer ar1 \<ge> cfg_Num_layers cfg then Inr (ar1, f1)
             else
               let ar2 = ar1\<lparr>paintLayer := routeLayer ar1\<rparr>;
                   width0 = LefGetRouteWidth (LefInfo st) (PitchX st) (PitchY st) (paintLayer ar2)
               in if special
                  then then_do (need_token f1) (\<lambda>(wtoken, f2).
                         case sscanf_lg wtoken of
                           None \<Rightarrow> Inr (ar2, f2)
                         | Some wv \<Rightarrow>
                             Inr (ar2\<lparr>rt_w := (if wv \<noteq> 0 then wv / scale else width0)\<rparr>, f2))
                  else Inr (push_route (ar2\<lparr>rt_w := width0\<rparr>), f1))"

text \<open>One rectangle of a via named in a route: it may lower \<open>paintLayer\<close>, and on a special
  net that makes obstructions it adds the rectangle, halved, moved to the current point and
  grown by the layer's spacing, to \<open>UserObs\<close>.\<close>

definition via_rect :: "def_read \<Rightarrow> bool \<Rightarrow> bool \<Rightarrow> dseg \<Rightarrow> add_routes \<Rightarrow> add_routes" where
  "via_rect st special noobstruct r ar =
     (let ar1 = ar\<lparr>routeLayer := layer r\<rparr>;
          ar2 = (if routeLayer ar1 < paintLayer ar1 then ar1\<lparr>paintLayer := routeLayer ar1\<rparr>
                 else ar1)
      in if routeLayer ar2 \<ge> 0 \<and> special \<and> valid ar2 \<and> \<not> noobstruct
         then (let s = LefGetRouteSpacing (LefInfo st) (PitchX st) (PitchY st) (routeLayer ar2)
               in ar2\<lparr>UserObs := \<lparr>x1 = rt_x ar2 + x1 r / 2 - s, y1 = rt_y ar2 + y1 r / 2 - s,
                                     x2 = rt_x ar2 + x2 r / 2 + s, y2 = rt_y ar2 + y2 r / 2 + s,
                                     layer = routeLayer ar2\<rparr> # UserObs ar2\<rparr>)
         else ar2)"

text \<open>A via name in a route, once a reference point is valid.\<close>

definition route_via ::
  "def_config \<Rightarrow> def_read \<Rightarrow> bool \<Rightarrow> bool \<Rightarrow> add_routes \<Rightarrow> string \<Rightarrow> add_routes" where
  "route_via cfg st special noobstruct ar token =
     (case LefFindLayer (LefInfo st) token of
        None \<Rightarrow> ar
      | Some i \<Rightarrow>
          let lefl = LefInfo st ! i;
              ar1 = (if lefClass lefl = CLASS_VIA
                     then (let a0 = ar\<lparr>paintLayer := cfg_Num_layers cfg - 1, routeLayer := -1\<rparr>;
                               a1 = (if layer (area (via lefl)) < cfg_Num_layers cfg
                                     then via_rect st special noobstruct (area (via lefl)) a0
                                     else a0);
                               a2 = fold (\<lambda>r a. if layer r \<ge> cfg_Num_layers cfg then a
                                                 else via_rect st special noobstruct r a)
                                         (lr (via lefl)) a1
                           in if routeLayer a2 = -1 then a2\<lparr>paintLayer := type lefl\<rparr> else a2)
                     else ar\<lparr>paintLayer := type lefl\<rparr>)
          in if \<not> special \<and> paintLayer ar1 \<ge> 0 \<and> paintLayer ar1 < cfg_Num_layers cfg - 1
             then push_seg \<lparr>segtype = ST_VIA, seg_x1 = refp_x1 ar1, seg_y1 = refp_y1 ar1,
                            seg_x2 = refp_x1 ar1, seg_y2 = refp_y1 ar1,
                            seg_layer = paintLayer ar1\<rparr> ar1
             else ar1)"

text \<open>
  One coordinate of a point: \<open>*\<close> keeps the reference value (\<open>None\<close> of the result is the
  jump to \<open>endCoord\<close>), a number is scaled to microns and snapped to the nearest track, and on
  a regular net a distance of more than 0.33 pitch from the track flags the route.  A zero
  pitch makes the cast undefined.
\<close>

definition read_coord ::
  "(string \<Rightarrow> real option) \<Rightarrow> real \<Rightarrow> real \<Rightarrow> real \<Rightarrow> real \<Rightarrow> bool \<Rightarrow> bool \<Rightarrow> string
     \<Rightarrow> real \<Rightarrow> int \<Rightarrow> crash + (real \<times> int \<times> bool) option" where
  "read_coord sscanf_lg EPS scale lower pitch special is_valid token old_v old_g =
     (if first_char token = CHR ''*''
      then (if is_valid then Inr (Some (old_v, old_g, False)) else Inr None)
      else (case sscanf_lg token of
              None \<Rightarrow> Inr None
            | Some v0 \<Rightarrow>
                if pitch = 0 then Inl BadConversion
                else (let v = v0 / scale;
                          g = trunc_int (1 / 2 + ((v - lower + EPS) / pitch))
                      in Inr (Some (v, g,
                           \<not> special \<and> ABSDIFF (real_of_int g) ((v - lower) / pitch) > 33 / 100)))))"

text \<open>\<open>endCoord\<close>: from the current token on, read up to the closing parenthesis.\<close>

fun skip_to_close :: "string \<Rightarrow> string list \<Rightarrow> crash + string list" where
  "skip_to_close token [] = (if first_char token = CHR '')'' then Inr [] else Inl NullDeref)"
| "skip_to_close token (t # ts) =
     (if first_char token = CHR '')'' then Inr (t # ts) else skip_to_close t ts)"

text \<open>What is done with a point once both coordinates are read.\<close>

definition route_segment ::
  "def_config \<Rightarrow> def_read \<Rightarrow> bool \<Rightarrow> bool \<Rightarrow> int \<Rightarrow> int \<Rightarrow> add_routes \<Rightarrow> add_routes" where
  "route_segment cfg st special noobstruct locarea_x1 locarea_y1 ar =
     (if \<not> valid ar then ar\<lparr>valid := True\<rparr>
      else if locarea_x1 \<noteq> refp_x1 ar \<and> locarea_y1 \<noteq> refp_y1 ar
      then ar\<lparr>rt_lx := rt_x ar, rt_ly := rt_y ar\<rparr>
      else if special
      then (if \<not> noobstruct
            then (let s = LefGetRouteSpacing (LefInfo st) (PitchX st) (PitchY st) (routeLayer ar);
                      hw = rt_w ar / 2;
                      ox1 = (if rt_lx ar > rt_x ar then rt_x ar - s
                             else if rt_lx ar < rt_x ar then rt_lx ar - s
                             else rt_x ar - hw - s);
                      ox2 = (if rt_lx ar > rt_x ar then rt_lx ar + s
                             else if rt_lx ar < rt_x ar then rt_x ar + s
                             else rt_x ar + hw + s);
                      oy1 = (if rt_ly ar > rt_y ar then rt_y ar - s
                             else if rt_ly ar < rt_y ar then rt_ly ar - s
                             else rt_y ar - hw - s);
                      oy2 = (if rt_ly ar > rt_y ar then rt_ly ar + s
                             else if rt_ly ar < rt_y ar then rt_y ar + s
                             else rt_y ar + hw + s)
                  in ar\<lparr>UserObs := \<lparr>x1 = ox1, y1 = oy1, x2 = ox2, y2 = oy2,
                                        layer = routeLayer ar\<rparr> # UserObs ar\<rparr>)
            else ar)
      else if paintLayer ar \<ge> 0 \<and> paintLayer ar < cfg_Num_layers cfg
      then push_seg \<lparr>segtype = ST_WIRE, seg_x1 = refp_x1 ar, seg_y1 = refp_y1 ar,
                     seg_x2 = locarea_x1, seg_y2 = locarea_y1, seg_layer = paintLayer ar\<rparr> ar
      else ar)"

text \<open>A point \<open>( X Y )\<close> of a route, after its opening parenthesis.  (The \<open>free\<close> of
  \<open>newRoute\<close> on the error path of a \<open>*\<close> without a reference point is not modelled.)\<close>

definition route_point ::
  "(string \<Rightarrow> real option) \<Rightarrow> def_config \<Rightarrow> def_read \<Rightarrow> real \<Rightarrow> bool \<Rightarrow> bool \<Rightarrow> add_routes
     \<Rightarrow> string list \<Rightarrow> crash + (add_routes \<times> string list)" where
  "route_point sscanf_lg cfg st scale special noobstruct ar f =
     (let locarea_x1 = refp_x1 ar; locarea_y1 = refp_y1 ar;
          ar0 = ar\<lparr>paintLayer := routeLayer ar, rt_lx := rt_x ar, rt_ly := rt_y ar\<rparr>
      in then_do (need_token f) (\<lambda>(xtoken, f1).
         then_do (read_coord sscanf_lg (cfg_EPS cfg) scale (Xlowerbound st) (PitchX st) special
                    (valid ar0) xtoken (rt_x ar0) (refp_x1 ar0)) (\<lambda>xr.
         case xr of
           None \<Rightarrow> then_do (skip_to_close xtoken f1) (\<lambda>f'. Inr (ar0, f'))
         | Some (xv, xg, xflag) \<Rightarrow>
             let ar1 = ar0\<lparr>rt_x := xv, refp_x1 := xg\<rparr>;
                 ar2 = (if xflag then flag_check ar1 else ar1)
             in then_do (need_token f1) (\<lambda>(ytoken, f2).
                then_do (read_coord sscanf_lg (cfg_EPS cfg) scale (Ylowerbound st) (PitchY st)
                           special (valid ar2) ytoken (rt_y ar2) (refp_y1 ar2)) (\<lambda>yr.
                case yr of
                  None \<Rightarrow> then_do (skip_to_close ytoken f2) (\<lambda>f'. Inr (ar2, f'))
                | Some (yv, yg, yflag) \<Rightarrow>
                    let ar3 = ar2\<lparr>rt_y := yv, refp_y1 := yg\<rparr>;
                        ar4 = (if yflag then flag_check ar3 else ar3);
                        ar5 = route_segment cfg st special noobstruct locarea_x1 locarea_y1 ar4
                    in then_do (skip_to_close ytoken f2) (\<lambda>f'. Inr (ar5, f')))))))"

text \<open>One round of the \<open>while\<close> loop after the first: \<open>Leave\<close> with the token that ends
  the loop, or \<open>Again\<close>.\<close>

datatype 'a round = Leave 'a "string option" "string list" | Again 'a "string list"

definition DefAddRoutes_round ::
  "(string \<Rightarrow> real option) \<Rightarrow> def_config \<Rightarrow> def_read \<Rightarrow> real \<Rightarrow> bool \<Rightarrow> bool \<Rightarrow> add_routes
     \<Rightarrow> string list \<Rightarrow> crash + add_routes round" where
  "DefAddRoutes_round sscanf_lg cfg st scale special noobstruct ar f =
     (case LefNextToken f of
        (None, f1) \<Rightarrow> Inr (Leave ar None f1)
      | (Some token, f1) \<Rightarrow>
          if token = ''NEW'' \<or> token = ''new''
          then then_do (route_NEW sscanf_lg cfg st scale special ar f1) (\<lambda>(ar', f').
                 Inr (Again ar' f'))
          else if first_char token \<noteq> CHR ''(''
          then (if first_char token = CHR '';'' \<or> first_char token = CHR ''+''
                then Inr (Leave ar (Some token) f1)
                else if \<not> valid ar then Inr (Again ar f1)
                else Inr (Again (route_via cfg st special noobstruct ar token) f1))
          else then_do (route_point sscanf_lg cfg st scale special noobstruct ar f1)
                 (\<lambda>(ar', f'). Inr (Again ar' f')))"

function DefAddRoutes_loop ::
  "(string \<Rightarrow> real option) \<Rightarrow> def_config \<Rightarrow> def_read \<Rightarrow> real \<Rightarrow> bool \<Rightarrow> bool \<Rightarrow> add_routes
     \<Rightarrow> string list \<Rightarrow> crash + (add_routes \<times> string option \<times> string list)" where
  "DefAddRoutes_loop sscanf_lg cfg st scale special noobstruct ar f =
     (case DefAddRoutes_round sscanf_lg cfg st scale special noobstruct ar f of
        Inl e \<Rightarrow> Inl e
      | Inr (Leave ar' token f') \<Rightarrow> Inr (ar', token, f')
      | Inr (Again ar' f') \<Rightarrow>
          DefAddRoutes_loop sscanf_lg cfg st scale special noobstruct ar' f')"
  by pat_completeness auto

text \<open>Modelled from the spec: \<open>remove_top_route\<close>, a function of the router that is not in
  def.c or lef.c, deletes the route at the head of the net's route list.\<close>

definition remove_top_route :: "net \<Rightarrow> net" where
  "remove_top_route n = n\<lparr>routes := tl (routes n)\<rparr>"

text \<open>
  The end of \<open>DefAddRoutes\<close>: a route that is still the head of the net's list, is flagged
  \<open>RT_CHECK\<close> and consists of one segment that spans one track in one direction is removed.
\<close>

definition remove_stub :: "add_routes \<Rightarrow> net" where
  "remove_stub ar =
     (let n = the_net ar
      in case routednet ar of
           None \<Rightarrow> n
         | Some r \<Rightarrow>
             if routes n \<noteq> [] \<and> route_pos (routes n) r = 0 \<and> r < length (routes n)
                \<and> RT_CHECK \<in> rflags (hd (routes n))
             then (case segments (hd (routes n)) of
                     [sg] \<Rightarrow>
                       (let ix = ABSDIFF (seg_x1 sg) (seg_x2 sg);
                            iy = ABSDIFF (seg_y1 sg) (seg_y2 sg)
                        in if (ix = 0 \<and> iy = 1) \<or> (ix = 1 \<and> iy = 0)
                           then remove_top_route n else n)
                   | _ \<Rightarrow> n)
             else n)"

text \<open>
  \<open>DefAddRoutes(f, oscale, net, special)\<close>.  \<open>locals\<close> gives what the uninitialised locals
  hold at entry.  The result is the net, \<open>UserObs\<close>, the last token and the tokens left.
\<close>

definition DefAddRoutes ::
  "(string \<Rightarrow> real option) \<Rightarrow> def_config \<Rightarrow> def_read \<Rightarrow> real \<Rightarrow> add_routes \<Rightarrow> net
     \<Rightarrow> dseg list \<Rightarrow> bool \<Rightarrow> string list
     \<Rightarrow> crash + (net \<times> dseg list \<times> string option \<times> string list)" where
  "DefAddRoutes sscanf_lg cfg st scale locals n obs0 special f =
     (let noobstruct = (special \<and> NET_IGNORED \<notin> flags n \<and> netnum n \<noteq> cfg_VDD_NET cfg
                        \<and> netnum n \<noteq> cfg_GND_NET cfg);
          ar0 = locals\<lparr>the_net := n, UserObs := obs0, routednet := None, refp_x1 := 0,
                       refp_y1 := 0, valid := False, routeLayer := -1\<rparr>
      in then_do (route_NEW sscanf_lg cfg st scale special ar0 f) (\<lambda>(ar1, f1).
         then_do (DefAddRoutes_loop sscanf_lg cfg st scale special noobstruct ar1 f1)
           (\<lambda>(ar2, token, f2). Inr (remove_stub ar2, UserObs ar2, token, f2))))"

text \<open>A configuration, a reader state (scale 100, both pitches 1, bounds zero, route layers
  M1 and M2 of width 1/5), some content for the uninitialised locals and an empty net, used in
  examples.\<close>

definition cfg0 :: def_config where
  "cfg0 = \<lparr>cfg_EPS = 1 / 10000, cfg_Num_layers = 2, cfg_VDD_NET = 1, cfg_GND_NET = 2,
           cfg_MIN_NET_NUMBER = 4, cfg_vddnet = Some ''VDD'', cfg_gndnet = Some ''GND''\<rparr>"

definition st0 :: def_read where
  "st0 = (def_read_init [route_layer ''M1'' 0 (1 / 5), route_layer ''M2'' 1 (1 / 5)])
           \<lparr>oscale := 100, PitchX := 1, PitchY := 1\<rparr>"

definition locals0 :: add_routes where
  "locals0 = \<lparr>the_net = \<lparr>netnum = 0, netname = [], numnodes = 0, flags = {}, netnodes = [], routes = []\<rparr>,
     UserObs = [], routednet = None, refp_x1 = 0, refp_y1 = 0, valid = False,
     rt_x = 0, rt_y = 0, rt_lx = 0, rt_ly = 0, rt_w = 0, routeLayer = 0, paintLayer = 0\<rparr>"

definition net0 :: "string \<Rightarrow> int \<Rightarrow> net" where
  "net0 name n = \<lparr>netnum = n, netname = name, numnodes = 0, flags = {}, netnodes = [], routes = []\<rparr>"




section \<open>The NETS and SPECIALNETS sections (\<open>DefReadNets\<close>, def.c)\<close>

text \<open>\<open>strcasecmp(a, b) == 0\<close> (C locale).\<close>

definition strcasecmp_eq :: "string \<Rightarrow> string \<Rightarrow> bool" where
  "strcasecmp_eq a b = (map tolower a = map tolower b)"

text \<open>\<open>LookupFull\<close>: the position of the first entry that equals the name up to case, -1 if
  there is none.\<close>

fun LookupFull_from :: "string \<Rightarrow> string list \<Rightarrow> int \<Rightarrow> int" where
  "LookupFull_from name [] pos = -1"
| "LookupFull_from name (entry # table) pos =
     (if name = entry \<or> map toupper name = map toupper entry then pos
      else LookupFull_from name table (pos + 1))"

definition LookupFull :: "string \<Rightarrow> string list \<Rightarrow> int" where
  "LookupFull name table = LookupFull_from name table 0"

text \<open>\<open>LefParseEndStatement(f, match)\<close> with a section name to match.\<close>

definition LefParseEndStatement :: "string list \<Rightarrow> string \<Rightarrow> bool \<times> string list" where
  "LefParseEndStatement f match =
     (case LefNextToken f of
        (None, f1) \<Rightarrow> (False, f1)
      | (Some token, f1) \<Rightarrow> (LookupFull token [match] = 0, f1))"

text \<open>\<open>DefFindNet\<close>, in the variant without hash tables: the first net of that name up to
  case.\<close>

fun DefFindNet :: "net list \<Rightarrow> string \<Rightarrow> nat option" where
  "DefFindNet [] name = None"
| "DefFindNet (n # rest) name =
     (if strcasecmp_eq (netname n) name then Some 0 else map_option Suc (DefFindNet rest name))"

text \<open>
  Whether \<open>DefReadGatePin\<close> finds the pin: \<open>DefFindGate\<close> finds an instance of that name
  up to case in \<open>Nlgates\<close>, the instance has a macro, and one of the macro's pins has that name
  up to case.  A macro is referred to by its name.
\<close>

definition has_pin :: "gate list \<Rightarrow> gate list \<Rightarrow> string \<Rightarrow> string \<Rightarrow> bool" where
  "has_pin Nlgates GateInfo instname pinname =
     (case find (\<lambda>g. case gatename g of Some n \<Rightarrow> strcasecmp_eq n instname | None \<Rightarrow> False)
             Nlgates of
        None \<Rightarrow> False
      | Some g \<Rightarrow>
          (case find (\<lambda>m. gatetype g \<noteq> None \<and> gatename m = gatetype g) GateInfo of
             None \<Rightarrow> False
           | Some gateginfo \<Rightarrow>
               list_ex (\<lambda>nm. case nm of Some s \<Rightarrow> strcasecmp_eq s pinname | None \<Rightarrow> False)
                 (take (nat (nodes gateginfo)) (node_names gateginfo))))"

text \<open>
  \<open>DefReadGatePin\<close>, as far as the net is concerned: when the pin is found, the node takes the
  number and the name of the net and goes to the head of the net's node list; otherwise the
  net is unchanged.  The grid points of the node and the entries of the instance are left out.
\<close>

definition DefReadGatePin :: "gate list \<Rightarrow> gate list \<Rightarrow> net \<Rightarrow> node \<Rightarrow> string \<Rightarrow> string \<Rightarrow> net" where
  "DefReadGatePin Nlgates GateInfo n nd instname pinname =
     (if has_pin Nlgates GateInfo instname pinname
      then n\<lparr>netnodes := nd\<lparr>node_netnum := netnum n, node_netname := Some (netname n)\<rparr>
                             # netnodes n\<rparr>
      else n)"

definition net_keys :: "string list" where
  "net_keys = [''-'', ''END'']"

definition net_property_keys :: "string list" where
  "net_property_keys = [''USE'', ''ROUTED'', ''FIXED'', ''COVER'', ''SHAPE'', ''SOURCE'', ''WEIGHT'',
                        ''PROPERTY'']"

text \<open>What the reader of one net statement carries along: the net, the next node number,
  whether the statement created the net, the count of fixed nets and \<open>UserObs\<close>.\<close>

record net_stmt =
  ns_net :: net
  nodeidx :: int
  is_new :: bool
  fixed :: int
  ns_UserObs :: "dseg list"

text \<open>The fixed surroundings of \<open>DefReadNets\<close>: the C library's scanner, the constants, the
  reader's state and scale, the uninitialised locals of \<open>DefAddRoutes\<close>, the instance and
  macro lists, and the argument \<open>special\<close>.\<close>

record nets_env =
  env_sscanf_lg :: "string \<Rightarrow> real option"
  env_cfg :: def_config
  env_st :: def_read
  env_scale :: real
  env_locals :: add_routes
  env_Nlgates :: "gate list"
  env_GateInfo :: "gate list"
  env_special :: bool

text \<open>\<open>while (token && (*token != ';')) token = DefAddRoutes(f, oscale, net, special);\<close>\<close>

definition goes_on :: "string option \<Rightarrow> bool" where
  "goes_on token = (case token of None \<Rightarrow> False | Some t \<Rightarrow> first_char t \<noteq> CHR '';'')"

function read_routes ::
  "nets_env \<Rightarrow> net \<Rightarrow> dseg list \<Rightarrow> string option \<Rightarrow> string list
     \<Rightarrow> crash + (net \<times> dseg list \<times> string option \<times> string list)" where
  "read_routes env n obs0 token f =
     (if goes_on token
      then (case DefAddRoutes (env_sscanf_lg env) (env_cfg env) (env_st env) (env_scale env)
                   (env_locals env) n obs0 (env_special env) f of
              Inl e \<Rightarrow> Inl e
            | Inr (n', obs', token', f') \<Rightarrow> read_routes env n' obs' token' f')
      else Inr (n, obs0, token, f))"
  by pat_completeness auto

text \<open>A connection \<open>( instance pin )\<close> of a net statement, after its opening parenthesis.\<close>

definition net_connection ::
  "nets_env \<Rightarrow> net_stmt \<Rightarrow> string list \<Rightarrow> crash + (net_stmt \<times> string option \<times> string list)" where
  "net_connection env ns f =
     then_do (need_token f) (\<lambda>(t1, f1).
     then_do (need_token f1) (\<lambda>(t2, f2).
       let instname = (if strcasecmp_eq t1 ''pin'' then t2 else t1);
           pinname = (if strcasecmp_eq t1 ''pin'' then ''pin'' else t2);
           nd = \<lparr>nodenum = nodeidx ns, node_netnum = 0, node_numnodes = 0,
                 node_netname = None\<rparr>
       in case LefNextToken f2 of
            (token, f3) \<Rightarrow>
              Inr (ns\<lparr>nodeidx := nodeidx ns + 1,
                      ns_net := DefReadGatePin (env_Nlgates env) (env_GateInfo env) (ns_net ns)
                                  nd instname pinname\<rparr>, token, f3)))"

text \<open>A property \<open>+ key ...\<close> of a net statement, after the \<open>+\<close>.  The keys are numbered as
  in \<open>enum def_netprop_keys\<close>.\<close>

definition net_property ::
  "nets_env \<Rightarrow> net_stmt \<Rightarrow> string list \<Rightarrow> crash + (net_stmt \<times> string option \<times> string list)" where
  "net_property env ns f =
     then_do (need_token f) (\<lambda>(key, f1).
       let subkey = Lookup key net_property_keys
       in if subkey = 4 then (case LefNextToken f1 of (token, f2) \<Rightarrow> Inr (ns, token, f2))
          else if subkey = 1 \<or> subkey = 2 \<or> subkey = 3
          then (let ns1 = (if (subkey = 2 \<or> subkey = 3) \<and> is_new ns
                           then ns\<lparr>ns_net := (ns_net ns)\<lparr>flags := insert NET_IGNORED
                                                 (flags (ns_net ns))\<rparr>,
                                   fixed := fixed ns + 1\<rparr>
                           else ns)
                in then_do (read_routes env (ns_net ns1) (ns_UserObs ns1) (Some key) f1)
                     (\<lambda>(n', obs', token, f2).
                        let ns2 = ns1\<lparr>ns_net := n', ns_UserObs := obs'\<rparr>
                        in Inr (if (subkey = 1 \<or> subkey = 2) \<and> env_special env
                                   \<and> (netnum n' = cfg_VDD_NET (env_cfg env)
                                        \<or> netnum n' = cfg_GND_NET (env_cfg env))
                                then ns2\<lparr>fixed := fixed ns2 + 1\<rparr> else ns2, token, f2)))
          else Inr (ns, Some key, f1))"

text \<open>The loop over the rest of a net statement.\<close>

definition net_round ::
  "nets_env \<Rightarrow> net_stmt \<Rightarrow> string \<Rightarrow> string list
     \<Rightarrow> crash + (net_stmt \<times> string option \<times> string list)" where
  "net_round env ns token f =
     (if first_char token = CHR ''('' then net_connection env ns f
      else if first_char token \<noteq> CHR ''+''
      then (case LefNextToken f of (token', f1) \<Rightarrow> Inr (ns, token', f1))
      else net_property env ns f)"

function net_rounds ::
  "nets_env \<Rightarrow> net_stmt \<Rightarrow> string option \<Rightarrow> string list \<Rightarrow> crash + (net_stmt \<times> string list)" where
  "net_rounds env ns token f =
     (if goes_on token
      then (case net_round env ns (the token) f of
              Inl e \<Rightarrow> Inl e
            | Inr (ns', token', f') \<Rightarrow> net_rounds env ns' token' f')
      else Inr (ns, f))"
  by pat_completeness auto

text \<open>
  The state of \<open>DefReadNets\<close>: the array \<open>Nlnets\<close> up to \<open>Numnets\<close> (its length here), the
  number of entries allocated for it, and the locals \<open>netidx\<close>, \<open>processed\<close> and \<open>fixed\<close>,
  with \<open>UserObs\<close>.
\<close>

record nets_read =
  Nlnets :: "net list"
  allocated :: nat
  netidx :: int
  processed :: int
  nr_fixed :: int
  nr_UserObs :: "dseg list"

text \<open>\<open>case DEF_NET_START\<close>: one net statement.  A net that is not found is created and
  stored at \<open>Nlnets[Numnets++]\<close>; the array has \<open>allocated\<close> entries.\<close>

definition net_number :: "def_config \<Rightarrow> string \<Rightarrow> int \<Rightarrow> int \<times> int" where
  "net_number cfg token idx =
     (if cfg_vddnet cfg = Some token then (cfg_VDD_NET cfg, idx)
      else if cfg_gndnet cfg = Some token then (cfg_GND_NET cfg, idx)
      else (idx, idx + 1))"

definition DefReadNets_net ::
  "nets_env \<Rightarrow> nets_read \<Rightarrow> string list \<Rightarrow> crash + (nets_read \<times> string list)" where
  "DefReadNets_net env nr f =
     then_do (need_token f) (\<lambda>(token, f1).
     then_do (case DefFindNet (Nlnets nr) token of
                Some i \<Rightarrow> Inr (nr, i, numnodes (Nlnets nr ! i), False)
              | None \<Rightarrow>
                  if length (Nlnets nr) \<ge> allocated nr then Inl OutOfBounds
                  else (case net_number (env_cfg env) token (netidx nr) of
                          (num, idx') \<Rightarrow>
                            Inr (nr\<lparr>Nlnets := Nlnets nr @
                                      [\<lparr>netnum = num, netname = token, numnodes = 0, flags = {},
                                        netnodes = [], routes = []\<rparr>],
                                    netidx := idx'\<rparr>,
                                 length (Nlnets nr), 0, True)))
       (\<lambda>(nr1, i, idx, new).
          case LefNextToken f1 of
            (token1, f2) \<Rightarrow>
              then_do (net_rounds env
                         \<lparr>ns_net = Nlnets nr1 ! i, nodeidx = idx, is_new = new,
                          fixed = nr_fixed nr1, ns_UserObs = nr_UserObs nr1\<rparr> token1 f2)
                (\<lambda>(ns, f3).
                   Inr (nr1\<lparr>Nlnets := (Nlnets nr1)[i := ns_net ns],
                            processed := processed nr1 + 1,
                            nr_fixed := fixed ns, nr_UserObs := ns_UserObs ns\<rparr>, f3))))"

text \<open>One round of the loop over the statements of the section: \<open>Leave\<close> at the matching
  \<open>END\<close>, \<open>Again\<close> otherwise.\<close>

definition DefReadNets_round ::
  "nets_env \<Rightarrow> string \<Rightarrow> nets_read \<Rightarrow> string \<Rightarrow> string list \<Rightarrow> crash + nets_read round" where
  "DefReadNets_round env sname nr token f =
     (let keyword = Lookup token net_keys
      in if keyword < 0 then Inr (Again nr (LefEndStatement f))
         else if keyword = 0
         then then_do (DefReadNets_net env nr f) (\<lambda>(nr', f'). Inr (Again nr' f'))
         else (case LefParseEndStatement f sname of
                 (True, f1) \<Rightarrow> Inr (Leave nr None f1)
               | (False, f1) \<Rightarrow> Inr (Again nr f1)))"

function DefReadNets_loop ::
  "nets_env \<Rightarrow> string \<Rightarrow> nets_read \<Rightarrow> string list \<Rightarrow> crash + (nets_read \<times> string list)" where
  "DefReadNets_loop env sname nr f =
     (case LefNextToken f of
        (None, f1) \<Rightarrow> Inr (nr, f1)
      | (Some token, f1) \<Rightarrow>
          (case DefReadNets_round env sname nr token f1 of
             Inl e \<Rightarrow> Inl e
           | Inr (Leave nr' t f') \<Rightarrow> Inr (nr', f')
           | Inr (Again nr' f') \<Rightarrow> DefReadNets_loop env sname nr' f'))"
  by pat_completeness auto

text \<open>The last loop of \<open>DefReadNets\<close>, run for a NETS section: the node count of every net
  grows by the length of its node list and is copied to each of its nodes.\<close>

definition count_nodes :: "net \<Rightarrow> net" where
  "count_nodes n =
     (let cnt = numnodes n + int (length (netnodes n))
      in n\<lparr>numnodes := cnt,
           netnodes := map (\<lambda>nd. nd\<lparr>node_numnodes := cnt\<rparr>) (netnodes n)\<rparr>)"

text \<open>
  \<open>DefReadNets(f, sname, oscale, special, total)\<close> on the net array \<open>nets\<close>, with \<open>ntotal\<close> for \<open>total\<close>: the nets
  afterwards, the return value, \<open>UserObs\<close> and the tokens left.  The global \<open>Numnets\<close> is the
  length of \<open>nets\<close>.  (\<open>set_num_channels\<close> and the table \<open>home\<close>, which only the grid points
  of the nodes use, are left out; names are taken to fit the buffers of \<open>MAX_NAME_LEN\<close>
  characters.)
\<close>

definition DefReadNets ::
  "nets_env \<Rightarrow> string \<Rightarrow> nat \<Rightarrow> net list \<Rightarrow> dseg list \<Rightarrow> string list
     \<Rightarrow> crash + (net list \<times> int \<times> dseg list \<times> string list)" where
  "DefReadNets env sname ntotal nets obs0 f =
     (let nr0 = \<lparr>Nlnets = nets,
                 allocated = (if length nets = 0 then ntotal else length nets + ntotal),
                 netidx = (if length nets = 0 then cfg_MIN_NET_NUMBER (env_cfg env)
                           else int (length nets)),
                 processed = 0, nr_fixed = 0, nr_UserObs = obs0\<rparr>
      in then_do (DefReadNets_loop env sname nr0 f) (\<lambda>(nr, f').
           Inr (if env_special env then Nlnets nr else map count_nodes (Nlnets nr),
                nr_fixed nr, nr_UserObs nr, f')))"


text \<open>Surroundings for examples: no instances, no macros, the configuration \<open>cfg0\<close>.\<close>

definition env0 :: "bool \<Rightarrow> nets_env" where
  "env0 special = \<lparr>env_sscanf_lg = map_of [], env_cfg = cfg0, env_st = st0, env_scale = 100,
     env_locals = locals0, env_Nlgates = [], env_GateInfo = [], env_special = special\<rparr>"


section \<open>Results\<close>

subsection \<open>Diagnostics totals\<close>

text \<open>
  Claim C9, as the code has it.  With \<open>Verbose = 0\<close> the function returns at once: a call
  with a message counts nothing.
\<close>

theorem LefError_silent_counterexample:
  "fatal (LefError 0 100 7 LEF_ERROR (Some ''bad'') \<lparr>fatal = 0, nonfatal = 0, printed = []\<rparr>)
     + nonfatal (LefError 0 100 7 LEF_ERROR (Some ''bad'') \<lparr>fatal = 0, nonfatal = 0, printed = []\<rparr>)
   = 0"
  by (simp add: LefError_def)

text \<open>
  Claim C9, amended.  When \<open>Verbose\<close> is not zero, a call with a message adds one to the
  fatal total for an error class and one to the non-fatal total for a warning class, leaves
  the other total alone and prints no summary; the sentinel call (no message text) leaves both
  totals at zero and prints the summary of the cumulative totals exactly when their sum was
  positive.  When \<open>Verbose\<close> is zero the function changes and prints nothing.
\<close>

theorem LefError_totals:
  "(Verbose \<noteq> 0 \<longrightarrow>
      (let st' = LefError Verbose mx line kind (Some text) st in
         (kind \<in> {LEF_ERROR, DEF_ERROR} \<longrightarrow>
            fatal st' = fatal st + 1 \<and> nonfatal st' = nonfatal st) \<and>
         (kind \<in> {LEF_WARNING, DEF_WARNING} \<longrightarrow>
            nonfatal st' = nonfatal st + 1 \<and> fatal st' = fatal st) \<and>
         filter is_summary (printed st') = filter is_summary (printed st)) \<and>
      (let st' = LefError Verbose mx line kind None st in
         fatal st' = 0 \<and> nonfatal st' = 0 \<and>
         printed st' =
           (if fatal st + nonfatal st > 0
            then printed st @
              [Summary (if kind \<in> {DEF_ERROR, DEF_WARNING} then CHR ''D'' else CHR ''L'')
                 (fatal st) (nonfatal st)]
            else printed st))) \<and>
   (Verbose = 0 \<longrightarrow> LefError Verbose mx line kind fmt st = st)"
  by (cases kind) (auto simp: LefError_def Let_def)

theorem LefError_totals_witness:
  "(let st' = LefError 1 100 7 DEF_WARNING (Some ''odd'') \<lparr>fatal = 2, nonfatal = 3, printed = []\<rparr>
    in nonfatal st' = 4 \<and> fatal st' = 2) \<and>
   (let st' = LefError 1 100 7 DEF_ERROR None \<lparr>fatal = 2, nonfatal = 3, printed = []\<rparr>
    in fatal st' = 0 \<and> nonfatal st' = 0 \<and> printed st' = [Summary CHR ''D'' 2 3])"
  using LefError_totals [of 1 100 7 DEF_WARNING "''odd''" "\<lparr>fatal = 2, nonfatal = 3, printed = []\<rparr>" "None"]
        LefError_totals [of 1 100 7 DEF_ERROR "''odd''" "\<lparr>fatal = 2, nonfatal = 3, printed = []\<rparr>" "None"]
  by (simp add: Let_def)

subsection \<open>Fallback of the width, spacing and keepout queries\<close>






subsection \<open>Placement transform\<close>

text \<open>
  Claim C2.  The assignments of \<open>DefReadComponents\<close> compute, for every macro, instance and
  rectangle, the rotation, then the mirror in X, then the mirror in Y, each about the macro's
  width or height, followed by the translation to the placement position.  For the location
  tokens \<open>( 1000 2000 ) FN\<close>, once the C library has scanned the two numbers, the instance
  is placed at (1000, 2000) with the mirror-X flag alone, and the tap rectangle (0,0)-(200,200)
  of a macro of width 500 becomes (1300,2000)-(1500,2200).
\<close>

theorem place_rect_order:
  assumes "sscanf_f ''1000'' = Some 1000" and "sscanf_f ''2000'' = Some 2000"
  shows "place_rect gateginfo g d = spec_place_rect gateginfo g d \<and>
         DefReadLocation sscanf_f (Some inst) [''('', ''1000'', ''2000'', '')'', ''FN''] 1
           = Inr (0, Some (inst\<lparr>placedX := 1000, placedY := 2000, orient := {MX}\<rparr>), []) \<and>
         place_rect (m\<lparr>gate_width := 500, placedX := 0, placedY := 0\<rparr>)
             (inst\<lparr>placedX := 1000, placedY := 2000, orient := {MX}\<rparr>)
             \<lparr>x1 = 0, y1 = 0, x2 = 200, y2 = 200, layer = n\<rparr>
           = \<lparr>x1 = 1300, y1 = 2000, x2 = 1500, y2 = 2200, layer = n\<rparr>"
proof (intro conjI)
  show "place_rect gateginfo g d = spec_place_rect gateginfo g d"
    by (simp add: place_rect_def spec_place_rect_def Let_def to_origin_def rotate90_def
          mirror_x_def mirror_y_def translate_def)
next
  have "Lookup_unterminated ''FN'' orientations = Inr 4"
    by (simp add: Lookup_unterminated_def orientations_def isupper_def islower_def
          tolower_def toupper_def)
  then show "DefReadLocation sscanf_f (Some inst) [''('', ''1000'', ''2000'', '')'', ''FN''] 1
           = Inr (0, Some (inst\<lparr>placedX := 1000, placedY := 2000, orient := {MX}\<rparr>), [])"
    using assms by (simp add: DefReadLocation_def orient_flags_def)
next
  show "place_rect (m\<lparr>gate_width := 500, placedX := 0, placedY := 0\<rparr>)
             (inst\<lparr>placedX := 1000, placedY := 2000, orient := {MX}\<rparr>)
             \<lparr>x1 = 0, y1 = 0, x2 = 200, y2 = 200, layer = n\<rparr>
           = \<lparr>x1 = 1300, y1 = 2000, x2 = 1500, y2 = 2200, layer = n\<rparr>"
    by (simp add: place_rect_def Let_def)
qed

theorem place_rect_order_witness:
  "place_rect (macro_of_size ''INV'' 500 300)
       ((macro_of_size ''u1'' 500 300)\<lparr>placedX := 10, placedY := 20, orient := {R90, MY}\<rparr>)
       \<lparr>x1 = 1, y1 = 2, x2 = 3, y2 = 4, layer = 0\<rparr>
     = \<lparr>x1 = 12, y1 = -177, x2 = 14, y2 = -179, layer = 0\<rparr> \<and>
   DefReadLocation
       (\<lambda>s. if s = ''1000'' then Some 1000 else if s = ''2000'' then Some 2000 else None)
       (Some (macro_of_size ''u1'' 500 300)) [''('', ''1000'', ''2000'', '')'', ''FN''] 1
     = Inr (0, Some ((macro_of_size ''u1'' 500 300)
                       \<lparr>placedX := 1000, placedY := 2000, orient := {MX}\<rparr>), [])"
  using place_rect_order
    [of "\<lambda>s. if s = ''1000'' then Some 1000 else if s = ''2000'' then Some 2000 else None"
        "macro_of_size ''INV'' 500 300"
        "(macro_of_size ''u1'' 500 300)\<lparr>placedX := 10, placedY := 20, orient := {R90, MY}\<rparr>"
        "\<lparr>x1 = 1, y1 = 2, x2 = 3, y2 = 4, layer = 0\<rparr>"
        "macro_of_size ''u1'' 500 300" "macro_of_size ''INV'' 500 300" 0]
  by (simp add: spec_place_rect_def to_origin_def rotate90_def mirror_x_def mirror_y_def
        translate_def macro_of_size_def)


subsection \<open>Die area and tracks\<close>











subsection \<open>Pins\<close>


lemma LefNextToken_length:
  "LefNextToken f = (Some t, f') \<Longrightarrow> length f' < length f"
  by (cases f) auto

lemma LefNextToken_length_le:
  "LefNextToken f = (t, f') \<Longrightarrow> length f' \<le> length f"
  by (cases f) auto

lemma need_token_length:
  "need_token f = Inr (t, f') \<Longrightarrow> length f' < length f"
  by (cases f) (auto simp: need_token_def)

















lemma then_do_eq_Inr_iff: "then_do m k = Inr v \<longleftrightarrow> (\<exists>w. m = Inr w \<and> k w = Inr v)"
  by (cases m) auto









subsection \<open>Via selection\<close>

lemma backfill_steps [simp]:
  "ViaXX (backfill_copy new b cur) = (ViaXX cur)(b := ViaXX new b)"
  "ViaXY (backfill_copy new b cur) = (ViaXY cur)(b := ViaXY new b)"
  "ViaYX (backfill_copy new b cur) = (ViaYX cur)(b := ViaYX new b)"
  "ViaYY (backfill_copy new b cur) = (ViaYY cur)(b := ViaYY new b)"
  "ViaXX (backfill_XX new b cur) =
     (ViaXX cur)(b := if ViaXX cur b = None
                      then first_some (ViaXY new b) (ViaYX new b) (ViaYY new b) else ViaXX cur b)"
  "ViaXY (backfill_XX new b cur) = ViaXY cur"
  "ViaYX (backfill_XX new b cur) = ViaYX cur"
  "ViaYY (backfill_XX new b cur) = ViaYY cur"
  "ViaXY (backfill_XY new b cur) =
     (ViaXY cur)(b := if ViaXY cur b = None
                      then first_some (ViaXX new b) (ViaYY new b) (ViaYX new b) else ViaXY cur b)"
  "ViaXX (backfill_XY new b cur) = ViaXX cur"
  "ViaYX (backfill_XY new b cur) = ViaYX cur"
  "ViaYY (backfill_XY new b cur) = ViaYY cur"
  "ViaYX (backfill_YX new b cur) =
     (ViaYX cur)(b := if ViaYX cur b = None
                      then first_some (ViaYY new b) (ViaXX new b) (ViaXY new b) else ViaYX cur b)"
  "ViaXX (backfill_YX new b cur) = ViaXX cur"
  "ViaXY (backfill_YX new b cur) = ViaXY cur"
  "ViaYY (backfill_YX new b cur) = ViaYY cur"
  "ViaYY (backfill_YY new b cur) =
     (ViaYY cur)(b := if ViaYY cur b = None
                      then first_some (ViaYX new b) (ViaXY new b) (ViaXX new b) else ViaYY cur b)"
  "ViaXX (backfill_YY new b cur) = ViaXX cur"
  "ViaXY (backfill_YY new b cur) = ViaXY cur"
  "ViaYX (backfill_YY new b cur) = ViaYX cur"
  by (simp_all add: backfill_copy_def backfill_XX_def backfill_XY_def backfill_YX_def
        backfill_YY_def fun_eq_iff)

lemma backfill_layer_other:
  "c \<noteq> b \<Longrightarrow> ViaXX (backfill_layer new b cur) c = ViaXX cur c"
  "c \<noteq> b \<Longrightarrow> ViaXY (backfill_layer new b cur) c = ViaXY cur c"
  "c \<noteq> b \<Longrightarrow> ViaYX (backfill_layer new b cur) c = ViaYX cur c"
  "c \<noteq> b \<Longrightarrow> ViaYY (backfill_layer new b cur) c = ViaYY cur c"
  by (simp_all add: backfill_layer_def)

lemma backfill_layer_at:
  assumes "recorded new b"
  shows "ViaXX (backfill_layer new b cur) b =
           (if ViaXX new b \<noteq> None then ViaXX new b
            else first_some (ViaXY new b) (ViaYX new b) (ViaYY new b))"
    and "ViaXY (backfill_layer new b cur) b =
           (if ViaXY new b \<noteq> None then ViaXY new b
            else first_some (ViaXX new b) (ViaYY new b) (ViaYX new b))"
    and "ViaYX (backfill_layer new b cur) b =
           (if ViaYX new b \<noteq> None then ViaYX new b
            else first_some (ViaYY new b) (ViaXX new b) (ViaXY new b))"
    and "ViaYY (backfill_layer new b cur) b =
           (if ViaYY new b \<noteq> None then ViaYY new b
            else first_some (ViaYX new b) (ViaXY new b) (ViaXX new b))"
  using assms by (auto simp: backfill_layer_def recorded_def)

lemma fold_backfill_notin:
  "b \<notin> set bs \<Longrightarrow>
     ViaXX (fold (backfill_layer new) bs cur) b = ViaXX cur b \<and>
     ViaXY (fold (backfill_layer new) bs cur) b = ViaXY cur b \<and>
     ViaYX (fold (backfill_layer new) bs cur) b = ViaYX cur b \<and>
     ViaYY (fold (backfill_layer new) bs cur) b = ViaYY cur b"
  by (induction bs arbitrary: cur) (auto simp: backfill_layer_other)

lemma fold_backfill_in:
  assumes "recorded new b" and "b \<in> set bs" and "distinct bs"
  shows "ViaXX (fold (backfill_layer new) bs cur) b = ViaXX (backfill_layer new b cur) b \<and>
         ViaXY (fold (backfill_layer new) bs cur) b = ViaXY (backfill_layer new b cur) b \<and>
         ViaYX (fold (backfill_layer new) bs cur) b = ViaYX (backfill_layer new b cur) b \<and>
         ViaYY (fold (backfill_layer new) bs cur) b = ViaYY (backfill_layer new b cur) b"
  using assms(2,3)
proof (induction bs arbitrary: cur)
  case Nil
  then show ?case by simp
next
  case (Cons a bs)
  show ?case
  proof (cases "a = b")
    case True
    with Cons.prems have "b \<notin> set bs" by simp
    from fold_backfill_notin [OF this] True show ?thesis by simp
  next
    case False
    with Cons.prems have "b \<in> set bs" "distinct bs" by auto
    from Cons.IH [OF this, of "backfill_layer new a cur"] False assms(1)
    show ?thesis by (simp add: backfill_layer_at)
  qed
qed

lemma via_backfill_at:
  assumes "recorded new b" and "0 \<le> b" and "b < M"
  shows "ViaXX (via_backfill M new cur) b = ViaXX (backfill_layer new b cur) b"
    and "ViaXY (via_backfill M new cur) b = ViaXY (backfill_layer new b cur) b"
    and "ViaYX (via_backfill M new cur) b = ViaYX (backfill_layer new b cur) b"
    and "ViaYY (via_backfill M new cur) b = ViaYY (backfill_layer new b cur) b"
  using fold_backfill_in [OF assms(1), of "[0..M - 1]" cur] assms(2,3)
  by (simp_all add: via_backfill_def)

lemma backfill_choice:
  assumes "a \<noteq> None \<or> b \<noteq> None \<or> c \<noteq> None \<or> d \<noteq> None"
  shows "(if a \<noteq> None then a else first_some b c d) \<noteq> None \<and>
         (if a \<noteq> None then a else first_some b c d) \<in> {a, b, c, d}"
  using assms by (cases a; cases b; cases c; cases d) (simp_all add: first_some_def)

text \<open>
  Claim C3.  Let the three passes return the \<open>newVia..\<close> tables \<open>new\<close>.  For every base
  layer \<open>b\<close> below \<open>MAX_LAYERS\<close> for which the passes recorded a via, \<open>LefAssignLayerVias\<close>
  leaves a name in each of the four global entries of \<open>b\<close>, and each of these names is one
  that the passes recorded for \<open>b\<close>.
\<close>

theorem backfill_populates_all_slots:
  assumes "via_passes EPS M allowed li d = Inr (li1, new)"
    and "0 \<le> b" and "b < M" and "recorded new b"
  shows "LefAssignLayerVias EPS M allowed li d cur = Inr (li1, via_backfill M new cur) \<and>
         ViaXX (via_backfill M new cur) b \<noteq> None \<and>
         ViaXY (via_backfill M new cur) b \<noteq> None \<and>
         ViaYX (via_backfill M new cur) b \<noteq> None \<and>
         ViaYY (via_backfill M new cur) b \<noteq> None \<and>
         {ViaXX (via_backfill M new cur) b, ViaXY (via_backfill M new cur) b,
          ViaYX (via_backfill M new cur) b, ViaYY (via_backfill M new cur) b}
           \<subseteq> {ViaXX new b, ViaXY new b, ViaYX new b, ViaYY new b}"
proof -
  have run: "LefAssignLayerVias EPS M allowed li d cur = Inr (li1, via_backfill M new cur)"
    using assms(1) by (simp add: LefAssignLayerVias_def)
  have xx: "ViaXX (via_backfill M new cur) b \<noteq> None \<and>
            ViaXX (via_backfill M new cur) b \<in> {ViaXX new b, ViaXY new b, ViaYX new b, ViaYY new b}"
    using backfill_choice [of "ViaXX new b" "ViaXY new b" "ViaYX new b" "ViaYY new b"] assms(4)
    unfolding via_backfill_at(1) [OF assms(4,2,3)] backfill_layer_at(1) [OF assms(4)] recorded_def
    by blast
  have xy: "ViaXY (via_backfill M new cur) b \<noteq> None \<and>
            ViaXY (via_backfill M new cur) b \<in> {ViaXX new b, ViaXY new b, ViaYX new b, ViaYY new b}"
    using backfill_choice [of "ViaXY new b" "ViaXX new b" "ViaYY new b" "ViaYX new b"] assms(4)
    unfolding via_backfill_at(2) [OF assms(4,2,3)] backfill_layer_at(2) [OF assms(4)] recorded_def
    by blast
  have yx: "ViaYX (via_backfill M new cur) b \<noteq> None \<and>
            ViaYX (via_backfill M new cur) b \<in> {ViaXX new b, ViaXY new b, ViaYX new b, ViaYY new b}"
    using backfill_choice [of "ViaYX new b" "ViaYY new b" "ViaXX new b" "ViaXY new b"] assms(4)
    unfolding via_backfill_at(3) [OF assms(4,2,3)] backfill_layer_at(3) [OF assms(4)] recorded_def
    by blast
  have yy: "ViaYY (via_backfill M new cur) b \<noteq> None \<and>
            ViaYY (via_backfill M new cur) b \<in> {ViaXX new b, ViaXY new b, ViaYX new b, ViaYY new b}"
    using backfill_choice [of "ViaYY new b" "ViaYX new b" "ViaXY new b" "ViaXX new b"] assms(4)
    unfolding via_backfill_at(4) [OF assms(4,2,3)] backfill_layer_at(4) [OF assms(4)] recorded_def
    by blast
  from run xx xy yx yy show ?thesis by simp
qed


theorem backfill_populates_all_slots_witness:
  "LefAssignLayerVias (1 / 100) 4 []
      [via_on ''V12'' \<lparr>x1 = 0, y1 = 0, x2 = 2, y2 = 1, layer = 0\<rparr>
                      \<lparr>x1 = 0, y1 = 0, x2 = 1, y2 = 1, layer = 1\<rparr>,
       route_layer ''M2'' 1 1, route_layer ''M1'' 0 1] (0, 0) no_vias
     = Inr ([via_on ''V12'' \<lparr>x1 = 0, y1 = 0, x2 = 2, y2 = 1, layer = 0\<rparr>
                            \<lparr>x1 = 0, y1 = 0, x2 = 1, y2 = 1, layer = 1\<rparr>,
             route_layer ''M2'' 1 1, route_layer ''M1'' 0 1],
            via_backfill 4 (no_vias\<lparr>ViaXX := (\<lambda>b. None)(0 \<mapsto> ''V12''),
                                    ViaXY := (\<lambda>b. None)(0 \<mapsto> ''V12'')\<rparr>) no_vias) \<and>
   ViaYY (via_backfill 4 (no_vias\<lparr>ViaXX := (\<lambda>b. None)(0 \<mapsto> ''V12''),
                                   ViaXY := (\<lambda>b. None)(0 \<mapsto> ''V12'')\<rparr>) no_vias) 0
     = Some ''V12''"
proof -
  have passes: "via_passes (1 / 100) 4 []
      [via_on ''V12'' \<lparr>x1 = 0, y1 = 0, x2 = 2, y2 = 1, layer = 0\<rparr>
                      \<lparr>x1 = 0, y1 = 0, x2 = 1, y2 = 1, layer = 1\<rparr>,
       route_layer ''M2'' 1 1, route_layer ''M1'' 0 1] (0, 0)
     = Inr ([via_on ''V12'' \<lparr>x1 = 0, y1 = 0, x2 = 2, y2 = 1, layer = 0\<rparr>
                            \<lparr>x1 = 0, y1 = 0, x2 = 1, y2 = 1, layer = 1\<rparr>,
             route_layer ''M2'' 1 1, route_layer ''M1'' 0 1],
            no_vias\<lparr>ViaXX := (\<lambda>b. None)(0 \<mapsto> ''V12''),
                    ViaXY := (\<lambda>b. None)(0 \<mapsto> ''V12'')\<rparr>)"
    by (simp add: via_passes_def via_on_def route_layer_def LefNewVia_def route_range_def
          via_layers_def xydiff_def via_allowed_def assign_pass1_def assign_pass2_def
          assign_pass3_def fill_def no_vias_def Let_def)
  have rec: "recorded (no_vias\<lparr>ViaXX := (\<lambda>b. None)(0 \<mapsto> ''V12''),
                               ViaXY := (\<lambda>b. None)(0 \<mapsto> ''V12'')\<rparr>) 0"
    by (simp add: recorded_def)
  show ?thesis
    using backfill_populates_all_slots [OF passes _ _ rec, of no_vias]
    by (auto simp: no_vias_def)
qed


subsection \<open>Redefinition\<close>












subsection \<open>Stub routes\<close>

lemma route_NEW_length:
  assumes "route_NEW s cfg st sc sp ar f = Inr (ar', f')"
  shows "length f' \<le> length f"
proof -
  obtain token f1 where t: "LefNextToken f = (token, f1)" by (cases "LefNextToken f")
  then have l1: "length f1 \<le> length f" by (rule LefNextToken_length_le)
  from assms t have "f' = f1 \<or> (\<exists>w. need_token f1 = Inr (w, f'))"
    unfolding route_NEW_def
    by (auto simp: Let_def then_do_eq_Inr_iff split: if_splits option.splits)
  with l1 show ?thesis by (auto dest!: need_token_length)
qed

lemma skip_to_close_length:
  "skip_to_close t f = Inr f' \<Longrightarrow> length f' \<le> length f"
  by (induction t f rule: skip_to_close.induct) (auto split: if_splits)

lemma route_point_length:
  "route_point s cfg st sc sp nob ar f = Inr (ar', f') \<Longrightarrow> length f' \<le> length f"
  unfolding route_point_def
  by (auto simp: Let_def then_do_eq_Inr_iff split: option.splits prod.splits
        dest!: need_token_length skip_to_close_length)

lemma DefAddRoutes_round_length:
  "DefAddRoutes_round s cfg st sc sp nob ar f = Inr (Again ar' f') \<Longrightarrow> length f' < length f"
  unfolding DefAddRoutes_round_def
  by (auto simp: then_do_eq_Inr_iff split: prod.splits option.splits if_splits
        dest!: LefNextToken_length route_NEW_length route_point_length)

text \<open>Every round of the route loop that goes on has consumed a token.\<close>

termination DefAddRoutes_loop
  by (relation "measure (\<lambda>(s, cfg, st, sc, sp, nob, ar, f). length f)")
     (auto dest!: DefAddRoutes_round_length)

declare DefAddRoutes_loop.simps [simp del]



















subsection \<open>Net numbers\<close>

lemma LefNextToken_lengths:
  "LefNextToken f = (t, f') \<Longrightarrow> length f' \<le> length f \<and> (t \<noteq> None \<longrightarrow> length f' < length f)"
  by (cases f) auto

lemma DefAddRoutes_round_leave_length:
  "DefAddRoutes_round s cfg st sc sp nob ar f = Inr (Leave ar' token f')
     \<Longrightarrow> length f' \<le> length f \<and> (token \<noteq> None \<longrightarrow> length f' < length f)"
  unfolding DefAddRoutes_round_def
  by (auto simp: then_do_eq_Inr_iff split: prod.splits option.splits if_splits
        dest!: LefNextToken_lengths)

lemma DefAddRoutes_loop_length:
  "DefAddRoutes_loop s cfg st sc sp nob ar f = Inr (ar', token, f')
     \<Longrightarrow> length f' \<le> length f \<and> (token \<noteq> None \<longrightarrow> length f' < length f)"
proof (induction s cfg st sc sp nob ar f rule: DefAddRoutes_loop.induct)
  case (1 s cfg st sc sp nob ar f)
  show ?case
  proof (cases "DefAddRoutes_round s cfg st sc sp nob ar f")
    case (Inl e)
    with "1.prems" show ?thesis by (simp add: DefAddRoutes_loop.simps)
  next
    case (Inr r)
    show ?thesis
    proof (cases r)
      case (Leave a t g)
      with Inr "1.prems" have "a = ar'" "t = token" "g = f'"
        by (simp_all add: DefAddRoutes_loop.simps)
      with Inr Leave show ?thesis by (auto dest: DefAddRoutes_round_leave_length)
    next
      case (Again a g)
      with Inr "1.prems" have "DefAddRoutes_loop s cfg st sc sp nob a g = Inr (ar', token, f')"
        by (simp add: DefAddRoutes_loop.simps)
      then have "length f' \<le> length g \<and> (token \<noteq> None \<longrightarrow> length f' < length g)"
        by (rule "1.IH" [OF Inr Again])
      moreover from Inr Again have "length g < length f"
        by (auto dest: DefAddRoutes_round_length)
      ultimately show ?thesis by auto
    qed
  qed
qed

lemma DefAddRoutes_length:
  assumes "DefAddRoutes s cfg st sc locals n obs0 sp f = Inr (n', obs', token, f')"
  shows "length f' \<le> length f \<and> (token \<noteq> None \<longrightarrow> length f' < length f)"
proof -
  from assms obtain ar1 f1 ar2 where
    a: "route_NEW s cfg st sc sp
          (locals\<lparr>the_net := n, UserObs := obs0, routednet := None, refp_x1 := 0,
                       refp_y1 := 0, valid := False, routeLayer := -1\<rparr>) f = Inr (ar1, f1)"
    and b: "DefAddRoutes_loop s cfg st sc sp
          (sp \<and> NET_IGNORED \<notin> flags n \<and> netnum n \<noteq> cfg_VDD_NET cfg
                        \<and> netnum n \<noteq> cfg_GND_NET cfg) ar1 f1 = Inr (ar2, token, f')"
    unfolding DefAddRoutes_def by (auto simp: Let_def then_do_eq_Inr_iff)
  from a have "length f1 \<le> length f" by (rule route_NEW_length)
  with DefAddRoutes_loop_length [OF b] show ?thesis by auto
qed

termination read_routes
  by (relation "measure (\<lambda>(env, n, obs0, token, f). 2 * length f + (if goes_on token then 1 else 0))")
     (auto dest!: DefAddRoutes_length simp: goes_on_def split: option.splits)

declare read_routes.simps [simp del]

lemma read_routes_length:
  "read_routes env n obs0 token f = Inr (n', obs', token', f') \<Longrightarrow> length f' \<le> length f"
proof (induction env n obs0 token f rule: read_routes.induct)
  case (1 env n obs0 token f)
  show ?case
  proof (cases "goes_on token")
    case False
    with "1.prems" show ?thesis by (simp add: read_routes.simps)
  next
    case True
    with "1.prems" obtain n1 obs1 t1 f1 where
      d: "DefAddRoutes (env_sscanf_lg env) (env_cfg env) (env_st env) (env_scale env)
                   (env_locals env) n obs0 (env_special env) f = Inr (n1, obs1, t1, f1)"
      and r: "read_routes env n1 obs1 t1 f1 = Inr (n', obs', token', f')"
      by (auto simp: read_routes.simps [of env n obs0 token f] split: sum.splits)
    from r have "length f' \<le> length f1" by (rule "1.IH" [OF True d refl refl refl])
    with DefAddRoutes_length [OF d] show ?thesis by auto
  qed
qed

lemma net_connection_length:
  "net_connection env ns f = Inr (ns', token, f') \<Longrightarrow> length f' < length f"
  unfolding net_connection_def
  by (auto simp: Let_def then_do_eq_Inr_iff split: prod.splits
        dest!: need_token_length LefNextToken_length_le)

lemma net_property_length:
  assumes "net_property env ns f = Inr (ns', token, f')"
  shows "length f' < length f"
proof -
  from assms obtain key f1 where n: "need_token f = Inr (key, f1)"
    unfolding net_property_def by (auto simp: then_do_eq_Inr_iff)
  then have l: "length f1 < length f" by (rule need_token_length)
  from assms n have "f' = f1 \<or> (\<exists>t. LefNextToken f1 = (t, f'))
      \<or> (\<exists>n0 o0 n1 o1 t. read_routes env n0 o0 (Some key) f1 = Inr (n1, o1, t, f'))"
    unfolding net_property_def
    by (auto simp: Let_def then_do_eq_Inr_iff split: prod.splits if_splits)
  with l show ?thesis
    by (auto dest!: LefNextToken_length_le read_routes_length)
qed

lemma net_round_length:
  "net_round env ns token f = Inr (ns', token', f')
     \<Longrightarrow> length f' \<le> length f \<and> (token' \<noteq> None \<longrightarrow> length f' < length f)"
  unfolding net_round_def
  by (auto split: prod.splits if_splits
        dest!: net_connection_length net_property_length LefNextToken_lengths)

termination net_rounds
  by (relation "measure (\<lambda>(env, ns, token, f). 2 * length f + (if goes_on token then 1 else 0))")
     (auto dest!: net_round_length simp: goes_on_def split: option.splits)

declare net_rounds.simps [simp del]

lemma net_rounds_length:
  "net_rounds env ns token f = Inr (ns', f') \<Longrightarrow> length f' \<le> length f"
proof (induction env ns token f rule: net_rounds.induct)
  case (1 env ns token f)
  show ?case
  proof (cases "goes_on token")
    case False
    with "1.prems" show ?thesis by (simp add: net_rounds.simps)
  next
    case True
    with "1.prems" obtain ns1 t1 f1 where
      d: "net_round env ns (the token) f = Inr (ns1, t1, f1)"
      and r: "net_rounds env ns1 t1 f1 = Inr (ns', f')"
      by (auto simp: net_rounds.simps [of env ns token f] split: sum.splits)
    from r have "length f' \<le> length f1" by (rule "1.IH" [OF True d refl refl])
    with net_round_length [OF d] show ?thesis by auto
  qed
qed

lemma LefEndStatement_length: "length (LefEndStatement f) \<le> length f"
  by (induction f rule: LefEndStatement.induct) auto

lemma DefReadNets_net_length:
  assumes "DefReadNets_net env nr f = Inr (nr', f')"
  shows "length f' \<le> length f"
proof -
  from assms obtain token f1 ns0 ns where n: "need_token f = Inr (token, f1)"
    and r: "net_rounds env ns0 (fst (LefNextToken f1)) (snd (LefNextToken f1)) = Inr (ns, f')"
    unfolding DefReadNets_net_def by (auto simp: then_do_eq_Inr_iff split_beta)
  have "length (snd (LefNextToken f1)) \<le> length f1"
    by (rule LefNextToken_length_le [of f1 "fst (LefNextToken f1)"]) simp
  with need_token_length [OF n] net_rounds_length [OF r] show ?thesis by simp
qed

lemma DefReadNets_round_length:
  "DefReadNets_round env sname nr token f = Inr (Again nr' f') \<Longrightarrow> length f' \<le> length f"
  unfolding DefReadNets_round_def LefParseEndStatement_def
  using LefEndStatement_length [of f]
  by (auto simp: Let_def then_do_eq_Inr_iff split: prod.splits if_splits option.splits bool.splits
        dest!: DefReadNets_net_length LefNextToken_length_le)

termination DefReadNets_loop
  by (relation "measure (\<lambda>(env, sname, nr, f). length f)")
     (auto dest!: DefReadNets_round_length LefNextToken_length [OF sym])

declare DefReadNets_loop.simps [simp del]

lemma net_lookups:
  "Lookup ''-'' net_keys = 0" "Lookup ''END'' net_keys = 1"
  "LookupFull ''SPECIALNETS'' [''SPECIALNETS''] = 0" "LookupFull ''NETS'' [''NETS''] = 0"
  by (simp_all add: Lookup_def LookupFull_def net_keys_def isupper_def islower_def)

lemma net_names:
  "strcasecmp_eq ''VDD'' ''GND'' = False" "strcasecmp_eq ''VDD'' ''a'' = False"
  "strcasecmp_eq ''GND'' ''a'' = False"
  by code_simp+

lemmas nets_eval = DefReadNets_def DefReadNets_loop.simps DefReadNets_round_def DefReadNets_net_def
  net_rounds.simps net_round_def net_number_def goes_on_def LefParseEndStatement_def
  need_token_def net_lookups net_names env0_def cfg0_def

text \<open>
  C6 (net numbering).  The numbers of regular nets are not always distinct from, nor above, the
  two reserved numbers.  Take the constants of \<open>cfg0\<close> (power net \<open>VDD\<close> with the reserved
  number 1, ground net \<open>GND\<close> with the reserved number 2, regular numbers from 4) and a file
  whose SPECIALNETS section declares \<open>VDD\<close> and \<open>GND\<close> and whose NETS section declares the
  regular net \<open>a\<close>.  The first call of \<open>DefReadNets\<close> finds no nets and starts its counter at
  \<open>MIN_NET_NUMBER\<close>; the second finds two nets and starts its counter at their count, 2, so
  that the regular net \<open>a\<close> gets the number 2, the reserved number of the ground net, which
  the net \<open>GND\<close> already has.
\<close>

theorem regular_net_gets_reserved_number:
  "DefReadNets (env0 True) ''SPECIALNETS'' 2 [] []
     [''-'', ''VDD'', '';'', ''-'', ''GND'', '';'', ''END'', ''SPECIALNETS'',
      ''NETS'', ''1'', '';'', ''-'', ''a'', '';'', ''END'', ''NETS'']
   = Inr ([net0 ''VDD'' 1, net0 ''GND'' 2], 0, [],
          [''NETS'', ''1'', '';'', ''-'', ''a'', '';'', ''END'', ''NETS''])
   \<and> DefReadNets (env0 False) ''NETS'' 1 [net0 ''VDD'' 1, net0 ''GND'' 2] []
         [''-'', ''a'', '';'', ''END'', ''NETS'']
       = Inr ([net0 ''VDD'' 1, net0 ''GND'' 2, net0 ''a'' 2], 0, [], [])
   \<and> netnum (net0 ''a'' 2) = cfg_GND_NET cfg0
   \<and> netnum (net0 ''a'' 2) < cfg_MIN_NET_NUMBER cfg0"
  by (simp add: nets_eval net0_def count_nodes_def)

end
